theory Spec2Isabelle
  imports Main "HOL-Library.Sublist"
begin

section \<open>Go values that the client handles\<close>

text \<open>
  The package decodes response bodies into \<^verbatim>\<open>map[string]any\<close>. The dynamic values that
  \<^verbatim>\<open>encoding/json\<close> stores in an \<^verbatim>\<open>any\<close> are nil, bool, float64, string, \<^verbatim>\<open>[]any\<close> and
  \<^verbatim>\<open>map[string]any\<close>. Floating-point numbers are never inspected by the package, so their
  type is left abstract. A Go map is a finite partial function from keys to values.
\<close>

typedecl float64

datatype any_value =
    ANil
  | ABool bool
  | AFloat64 float64
  | AString string
  | ASlice "any_value list"
  | AMap "string \<rightharpoonup> any_value"

type_synonym gomap = "string \<rightharpoonup> any_value"

text \<open>
  Go errors. \<^verbatim>\<open>fmt.Errorf\<close> without \<^verbatim>\<open>%w\<close> yields an error that only has a message;
  with \<^verbatim>\<open>%w\<close> it yields an error that has a message and wraps its operand, which
  \<^verbatim>\<open>errors.Unwrap\<close> gives back.
\<close>

datatype error =
    ErrorString string
  | WrapError string error

fun Error :: "error \<Rightarrow> string" where
  "Error (ErrorString s) = s"
| "Error (WrapError s e) = s"


text \<open>\<^verbatim>\<open>fmt.Errorf(text + "%w", err)\<close>: the message is the text followed by the
  message of the wrapped error.\<close>

definition Errorf_w :: "string \<Rightarrow> error \<Rightarrow> error" where
  "Errorf_w txt err = WrapError (txt @ Error err) err"

text \<open>A call either returns normally, returns an error, or panics.\<close>

datatype fault =
    Err error
  | Panic string

subsection \<open>The verb \<^verbatim>\<open>%d\<close>\<close>

definition digit_char :: "nat \<Rightarrow> char" where
  "digit_char d = ''0123456789'' ! (d mod 10)"

fun digits :: "nat \<Rightarrow> string" where
  "digits n = (if n < 10 then [digit_char n] else digits (n div 10) @ [digit_char (n mod 10)])"

declare digits.simps [simp del]

definition fmt_d :: "int \<Rightarrow> string" where
  "fmt_d i = (if i < 0 then ''-'' @ digits (nat (- i)) else digits (nat i))"

subsection \<open>The type assertion \<^verbatim>\<open>data.(map[string]any)\<close>\<close>

fun dyn_type :: "any_value \<Rightarrow> string" where
  "dyn_type ANil = ''nil''"
| "dyn_type (ABool b) = ''bool''"
| "dyn_type (AFloat64 f) = ''float64''"
| "dyn_type (AString s) = ''string''"
| "dyn_type (ASlice xs) = ''[]interface {}''"
| "dyn_type (AMap m) = ''map[string]interface {}''"

text \<open>The single-result form of a type assertion panics when the dynamic type differs.\<close>

fun assert_map :: "any_value \<Rightarrow> fault + gomap" where
  "assert_map (AMap m) = Inr m"
| "assert_map v = Inl (Panic (''interface conversion: interface {} is '' @ dyn_type v
                              @ '', not map[string]interface {}''))"

section \<open>HTTP requests, responses and the world\<close>

text \<open>
  A response body is a stream: the bytes it delivers and the error that ends it, if any
  (\<open>None\<close> is a clean end of file). \<^verbatim>\<open>io.ReadAll\<close> returns both.
\<close>

type_synonym reader = "string \<times> error option"

definition ReadAll :: "reader \<Rightarrow> string \<times> error option" where
  "ReadAll r = r"

record request =
  Method :: string
  ReqURL :: string
  ReqBody :: "string option"
  Header :: "string \<rightharpoonup> string list"

record response =
  StatusCode :: int
  Body :: reader

text \<open>
  An \<^verbatim>\<open>http.Client\<close> is what its \<^verbatim>\<open>Do\<close> method does: from the state \<open>'w\<close> of the remote
  systems and a request, an error or a response, and the next state of the remote systems.
  The deferred \<^verbatim>\<open>resp.Body.Close()\<close> releases the connection and has no effect on what an
  operation returns; it is not modelled.
\<close>

type_synonym 'w http_client = "'w \<Rightarrow> request \<Rightarrow> (error + response) \<times> 'w"

text \<open>\<^verbatim>\<open>DirectusClient\<close> holds the configuration for a Directus instance. The field
  \<^verbatim>\<open>HTTPClient\<close> is a pointer: \<open>None\<close> is nil.\<close>

record 'w DirectusClient =
  URL :: string
  AccessToken :: string
  HTTPClient :: "'w http_client option"

text \<open>
  The state a run acts on: the remote systems, every request handed to a client's \<^verbatim>\<open>Do\<close>
  (in order), the lines written to standard output, and the heap of client objects.
  The methods of the package have pointer receivers, so a client is referred to by its
  address; an address outside the heap behaves as nil. \<open>next_addr\<close> is the next free address.
\<close>

type_synonym addr = nat

record 'w world =
  remote :: 'w
  sent :: "request list"
  stdout :: "string list"
  clients :: "addr \<rightharpoonup> 'w DirectusClient"
  next_addr :: addr

definition nil_dereference :: string where
  "nil_dereference = ''runtime error: invalid memory address or nil pointer dereference''"

text \<open>
  The library functions that the package calls and that are not part of it:
  the parse of the URL inside \<^verbatim>\<open>http.NewRequest\<close> (\<open>None\<close>: accepted), the \<^verbatim>\<open>http.Client\<close>
  that \<^verbatim>\<open>&http.Client{}\<close> denotes, \<^verbatim>\<open>json.Marshal\<close> on a map, and
  \<^verbatim>\<open>json.NewDecoder(body).Decode(&result)\<close> for a \<^verbatim>\<open>map[string]any\<close> result.
\<close>

record 'w lib =
  ParseURL :: "string \<Rightarrow> error option"
  DefaultClient :: "'w http_client"
  Marshal :: "gomap \<Rightarrow> error + string"
  Decode :: "reader \<Rightarrow> error + gomap"

text \<open>\<^verbatim>\<open>http.NewRequest\<close> with one of the methods GET and POST fails only on the URL.\<close>

definition NewRequest :: "'w lib \<Rightarrow> string \<Rightarrow> string \<Rightarrow> string option \<Rightarrow> error + request" where
  "NewRequest l m u b =
     (case ParseURL l u of
        Some err \<Rightarrow> Inl err
      | None \<Rightarrow> Inr \<lparr>Method = m, ReqURL = u, ReqBody = b, Header = Map.empty\<rparr>)"

definition Header_Set :: "string \<Rightarrow> string \<Rightarrow> request \<Rightarrow> request" where
  "Header_Set k v req = req\<lparr>Header := (Header req)(k \<mapsto> [v])\<rparr>"

text \<open>\<^verbatim>\<open>c.HTTPClient.Do(req)\<close>: the request is handed to the client, once. A nil client
  panics before anything is sent.\<close>

definition Do :: "'w http_client option \<Rightarrow> request \<Rightarrow> 'w world \<Rightarrow> (fault + response) \<times> 'w world" where
  "Do hc req w =
     (case hc of
        None \<Rightarrow> (Inl (Panic nil_dereference), w)
      | Some h \<Rightarrow>
          (case h (remote w) req of
             (Inl err, n) \<Rightarrow> (Inl (Err err), w\<lparr>remote := n, sent := sent w @ [req]\<rparr>)
           | (Inr resp, n) \<Rightarrow> (Inr resp, w\<lparr>remote := n, sent := sent w @ [req]\<rparr>)))"

definition Println :: "string \<Rightarrow> 'w world \<Rightarrow> 'w world" where
  "Println s w = w\<lparr>stdout := stdout w @ [s]\<rparr>"

section \<open>The client\<close>

text \<open>\<^verbatim>\<open>NewDirectusClient\<close> creates a new client for a Directus instance.\<close>

definition NewDirectusClient :: "'w lib \<Rightarrow> string \<Rightarrow> string \<Rightarrow> 'w world \<Rightarrow> addr \<times> 'w world" where
  "NewDirectusClient l url accessToken w =
     (next_addr w,
      w\<lparr>clients := (clients w)(next_addr w \<mapsto>
            \<lparr>URL = url, AccessToken = accessToken, HTTPClient = Some (DefaultClient l)\<rparr>),
        next_addr := Suc (next_addr w)\<rparr>)"

text \<open>\<^verbatim>\<open>GetSnapshot\<close> retrieves a schema snapshot from the Directus instance.\<close>

definition GetSnapshot :: "'w lib \<Rightarrow> addr \<Rightarrow> 'w world \<Rightarrow> (fault + gomap) \<times> 'w world" where
  "GetSnapshot l c w =
     (case clients w c of
        None \<Rightarrow> (Inl (Panic nil_dereference), w)
      | Some cl \<Rightarrow>
     (let url = URL cl @ ''/schema/snapshot?access_token='' @ AccessToken cl in
      case NewRequest l ''GET'' url None of
        Inl err \<Rightarrow> (Inl (Err (Errorf_w ''failed to create snapshot request: '' err)), w)
      | Inr req \<Rightarrow>
          (case Do (HTTPClient cl) req w of
             (Inl (Panic p), w') \<Rightarrow> (Inl (Panic p), w')
           | (Inl (Err err), w') \<Rightarrow>
               (Inl (Err (Errorf_w ''failed to execute snapshot request: '' err)), w')
           | (Inr resp, w') \<Rightarrow>
               if StatusCode resp \<noteq> 200 then
                 (let body = fst (ReadAll (Body resp)) in
                  (Inl (Err (ErrorString (''snapshot request failed with status ''
                     @ fmt_d (StatusCode resp) @ '': '' @ body))), w'))
               else
                 (case Decode l (Body resp) of
                    Inl err \<Rightarrow>
                      (Inl (Err (Errorf_w ''failed to decode snapshot response: '' err)), w')
                  | Inr result \<Rightarrow>
                      (case result ''data'' of
                         Some data \<Rightarrow> (assert_map data, w')
                       | None \<Rightarrow>
                           (Inl (Err (ErrorString
                              ''snapshot response does not contain 'data' field'')), w'))))))"

text \<open>\<^verbatim>\<open>GetDiff\<close> retrieves a schema diff between the target instance and the provided
  snapshot.\<close>

definition GetDiff :: "'w lib \<Rightarrow> addr \<Rightarrow> gomap \<Rightarrow> bool \<Rightarrow> 'w world \<Rightarrow> (fault + gomap) \<times> 'w world" where
  "GetDiff l c snapshot force w =
     (case clients w c of
        None \<Rightarrow> (Inl (Panic nil_dereference), w)
      | Some cl \<Rightarrow>
     (let url = URL cl @ ''/schema/diff?access_token='' @ AccessToken cl;
          url = (if force then url @ ''&force=true'' else url) in
      case Marshal l snapshot of
        Inl err \<Rightarrow> (Inl (Err (Errorf_w ''failed to marshal snapshot for diff request: '' err)), w)
      | Inr requestBody \<Rightarrow>
          (case NewRequest l ''POST'' url (Some requestBody) of
             Inl err \<Rightarrow> (Inl (Err (Errorf_w ''failed to create diff request: '' err)), w)
           | Inr req0 \<Rightarrow>
               (let req = Header_Set ''Content-Type'' ''application/json'' req0 in
                case Do (HTTPClient cl) req w of
                  (Inl (Panic p), w') \<Rightarrow> (Inl (Panic p), w')
                | (Inl (Err err), w') \<Rightarrow>
                    (Inl (Err (Errorf_w ''failed to execute diff request: '' err)), w')
                | (Inr resp, w') \<Rightarrow>
                    if StatusCode resp \<noteq> 200 then
                      (let body = fst (ReadAll (Body resp)) in
                       (Inl (Err (ErrorString (''diff request failed with status ''
                          @ fmt_d (StatusCode resp) @ '': '' @ body))), w'))
                    else
                      (case Decode l (Body resp) of
                         Inl err \<Rightarrow>
                           (Inl (Err (Errorf_w ''failed to decode diff response: '' err)), w')
                       | Inr result \<Rightarrow>
                           (case result ''data'' of
                              Some data \<Rightarrow> (assert_map data, w')
                            | None \<Rightarrow>
                                (Inl (Err (ErrorString
                                   ''diff response does not contain 'data' field'')), w')))))))"

text \<open>\<^verbatim>\<open>ApplyDiff\<close> applies a schema diff to the Directus instance.\<close>

definition ApplyDiff :: "'w lib \<Rightarrow> addr \<Rightarrow> gomap \<Rightarrow> 'w world \<Rightarrow> fault option \<times> 'w world" where
  "ApplyDiff l c diff w =
     (case clients w c of
        None \<Rightarrow> (Some (Panic nil_dereference), w)
      | Some cl \<Rightarrow>
     (let url = URL cl @ ''/schema/apply?access_token='' @ AccessToken cl in
      case Marshal l diff of
        Inl err \<Rightarrow> (Some (Err (Errorf_w ''failed to marshal diff for apply request: '' err)), w)
      | Inr requestBody \<Rightarrow>
          (case NewRequest l ''POST'' url (Some requestBody) of
             Inl err \<Rightarrow> (Some (Err (Errorf_w ''failed to create apply request: '' err)), w)
           | Inr req0 \<Rightarrow>
               (let req = Header_Set ''Content-Type'' ''application/json'' req0 in
                case Do (HTTPClient cl) req w of
                  (Inl (Panic p), w') \<Rightarrow> (Some (Panic p), w')
                | (Inl (Err err), w') \<Rightarrow>
                    (Some (Err (Errorf_w ''failed to execute apply request: '' err)), w')
                | (Inr resp, w') \<Rightarrow>
                    if StatusCode resp \<noteq> 204 then
                      (let body = fst (ReadAll (Body resp)) in
                       (Some (Err (ErrorString (''apply request failed with status ''
                          @ fmt_d (StatusCode resp) @ '': '' @ body))), w'))
                    else (None, w')))))"

section \<open>The orchestrator\<close>

text \<open>\<^verbatim>\<open>Migrate\<close> performs a full schema migration from a base project to a target
  project. A panic of a step is not recovered: it ends the run.\<close>

definition Migrate ::
  "'w lib \<Rightarrow> string \<Rightarrow> string \<Rightarrow> string \<Rightarrow> string \<Rightarrow> bool \<Rightarrow> 'w world \<Rightarrow> fault option \<times> 'w world" where
  "Migrate l baseURL baseToken targetURL targetToken force w0 =
     (let (baseClient, wa) = NewDirectusClient l baseURL baseToken w0;
          (targetClient, wb) = NewDirectusClient l targetURL targetToken wa in
      case GetSnapshot l baseClient (Println ''Retrieving snapshot from base project...'' wb) of
        (Inl (Panic p), w1) \<Rightarrow> (Some (Panic p), w1)
      | (Inl (Err err), w1) \<Rightarrow> (Some (Err (Errorf_w ''failed to get snapshot: '' err)), w1)
      | (Inr snapshot, w1) \<Rightarrow>
         (case GetDiff l targetClient snapshot force
                 (Println ''Retrieving diff from target project...''
                   (Println ''Snapshot retrieved successfully.'' w1)) of
            (Inl (Panic p), w2) \<Rightarrow> (Some (Panic p), w2)
          | (Inl (Err err), w2) \<Rightarrow> (Some (Err (Errorf_w ''failed to get diff: '' err)), w2)
          | (Inr diff, w2) \<Rightarrow>
             (case ApplyDiff l targetClient diff
                     (Println ''Applying diff to target project...''
                       (Println ''Diff retrieved successfully.'' w2)) of
                (Some (Panic p), w3) \<Rightarrow> (Some (Panic p), w3)
              | (Some (Err err), w3) \<Rightarrow> (Some (Err (Errorf_w ''failed to apply diff: '' err)), w3)
              | (None, w3) \<Rightarrow>
                  (None, Println ''Diff applied successfully. Migration complete.'' w3))))"

section \<open>Vocabulary of the statements\<close>

text \<open>The requests that the three operations build for a client, written out.\<close>

definition snapshot_request :: "'w DirectusClient \<Rightarrow> request" where
  "snapshot_request cl =
     \<lparr>Method = ''GET'',
      ReqURL = URL cl @ ''/schema/snapshot?access_token='' @ AccessToken cl,
      ReqBody = None, Header = Map.empty\<rparr>"

definition diff_request :: "'w DirectusClient \<Rightarrow> string \<Rightarrow> bool \<Rightarrow> request" where
  "diff_request cl body force =
     \<lparr>Method = ''POST'',
      ReqURL = URL cl @ ''/schema/diff?access_token='' @ AccessToken cl
                 @ (if force then ''&force=true'' else []),
      ReqBody = Some body,
      Header = [''Content-Type'' \<mapsto> [''application/json'']]\<rparr>"

definition apply_request :: "'w DirectusClient \<Rightarrow> string \<Rightarrow> request" where
  "apply_request cl body =
     \<lparr>Method = ''POST'',
      ReqURL = URL cl @ ''/schema/apply?access_token='' @ AccessToken cl,
      ReqBody = Some body,
      Header = [''Content-Type'' \<mapsto> [''application/json'']]\<rparr>"

text \<open>The world after one call of \<^verbatim>\<open>Do\<close>: the request is on record and the remote
  systems have moved on.\<close>

definition after_send :: "'w world \<Rightarrow> request \<Rightarrow> 'w \<Rightarrow> 'w world" where
  "after_send w req n = w\<lparr>remote := n, sent := sent w @ [req]\<rparr>"

text \<open>\<^verbatim>\<open>http.NewRequest\<close> accepts the URL of the request.\<close>

definition accepted :: "'w lib \<Rightarrow> request \<Rightarrow> bool" where
  "accepted l req = (ParseURL l (ReqURL req) = None)"

text \<open>The HTTP client of \<open>cl\<close>, handed \<open>req\<close> in the world \<open>w\<close>, answers with the
  response \<open>resp\<close>.\<close>

definition answers :: "'w DirectusClient \<Rightarrow> 'w world \<Rightarrow> request \<Rightarrow> response \<Rightarrow> bool" where
  "answers cl w req resp =
     (case HTTPClient cl of
        None \<Rightarrow> False
      | Some h \<Rightarrow> fst (h (remote w) req) = Inr resp)"

section \<open>A stub library for concrete runs\<close>

text \<open>
  A transport that answers from a table keyed by the request URL and refuses every other
  connection, the outcome of the library's URL parse on each URL that a scenario below
  builds, and an encoder and a decoder for the few documents of the scenarios.
\<close>

text \<open>A token with a line feed in it, as a value read from a file may have.\<close>

definition token_with_newline :: string where
  "token_with_newline = ''b'' @ [CHR 0x0A] @ ''t''"

text \<open>\<^verbatim>\<open>&url.Error{Op, URL, Err}\<close>, with the URL given as the verb \<^verbatim>\<open>%q\<close> renders it: the
  message is the operation, the quoted URL, a colon and the message of \<open>Err\<close>, and
  \<^verbatim>\<open>Unwrap\<close> gives \<open>Err\<close> back.\<close>

definition url_Error :: "string \<Rightarrow> string \<Rightarrow> error \<Rightarrow> error" where
  "url_Error op quoted err = WrapError (op @ '' '' @ quoted @ '': '' @ Error err) err"

text \<open>The error of \<^verbatim>\<open>url.Parse\<close> for a URL that has an ASCII control character in front of
  its fragment.\<close>

definition invalid_control_character :: "string \<Rightarrow> error" where
  "invalid_control_character quoted =
     url_Error ''parse'' quoted (ErrorString ''net/url: invalid control character in URL'')"

text \<open>
  The URLs that the package builds in the scenarios, each with the outcome of \<^verbatim>\<open>url.Parse\<close>
  on it: \<open>None\<close> where the URL is accepted, the error where it is rejected. The four URLs
  with the line feed are rejected; \<^verbatim>\<open>%q\<close> renders the line feed as a backslash and the
  letter n.
\<close>

definition parsed_urls :: "(string \<times> error option) list" where
  \<open>parsed_urls =
     [(''http://base/schema/snapshot?access_token=bt'', None),
      (''http://target/schema/diff?access_token=tt'', None),
      (''http://target/schema/diff?access_token=tt&force=true'', None),
      (''http://target/schema/apply?access_token=tt'', None),
      (''http://target/schema/diff?access_token=t&force=true'', None),
      (''http://target/schema/diff?access_token=t&force=true&force=true'', None),
      (''/schema/snapshot?access_token='', None),
      (''http://target/schema/diff?access_token=a b&c=d#e&force=true'', None),
      (''http://target/x?y=1#z/schema/apply?access_token=tt'', None),
      (''http://base/schema/snapshot?access_token='' @ token_with_newline,
         Some (invalid_control_character
           (''"http://base/schema/snapshot?access_token=b'' @ [CHR 0x5C] @ ''nt"''))),
      (''http://target/schema/diff?access_token='' @ token_with_newline,
         Some (invalid_control_character
           (''"http://target/schema/diff?access_token=b'' @ [CHR 0x5C] @ ''nt"''))),
      (''http://target/schema/diff?access_token='' @ token_with_newline @ ''&force=true'',
         Some (invalid_control_character
           (''"http://target/schema/diff?access_token=b'' @ [CHR 0x5C] @ ''nt&force=true"''))),
      (''http://target/schema/apply?access_token='' @ token_with_newline,
         Some (invalid_control_character
           (''"http://target/schema/apply?access_token=b'' @ [CHR 0x5C] @ ''nt"'')))]\<close>

text \<open>The parse of a scenario. A URL that no scenario builds is turned away with an error
  of the stub's own; nothing below relies on that.\<close>

definition stub_ParseURL :: "string \<Rightarrow> error option" where
  "stub_ParseURL u =
     (case map_of parsed_urls u of
        Some outcome \<Rightarrow> outcome
      | None \<Rightarrow> Some (ErrorString ''stub: not a URL of the scenarios''))"

definition stub_client :: "(string \<times> int \<times> string) list \<Rightarrow> unit http_client" where
  "stub_client routes u req =
     (case map_of routes (ReqURL req) of
        Some (code, body) \<Rightarrow> (Inr \<lparr>StatusCode = code, Body = (body, None)\<rparr>, u)
      | None \<Rightarrow> (Inl (ErrorString ''connection refused''), u))"

definition stub_Decode :: "reader \<Rightarrow> error + gomap" where
  \<open>stub_Decode r =
     (if fst r = ''{"data":{"fields":[]}}''
        then Inr [''data'' \<mapsto> AMap [''fields'' \<mapsto> ASlice []]]
      else if fst r = ''{"data":{"changes":[]}}''
        then Inr [''data'' \<mapsto> AMap [''changes'' \<mapsto> ASlice []]]
      else if fst r = ''{"data":[]}'' then Inr [''data'' \<mapsto> ASlice []]
      else if fst r = ''{}'' then Inr Map.empty
      else Inl (ErrorString ''invalid character''))\<close>

definition stub_Marshal :: "gomap \<Rightarrow> error + string" where
  \<open>stub_Marshal m =
     (if m ''fields'' = Some (ASlice []) then Inr ''{"fields":[]}''
      else if m ''changes'' = Some (ASlice []) then Inr ''{"changes":[]}''
      else Inr ''{}'')\<close>

definition stub :: "(string \<times> int \<times> string) list \<Rightarrow> unit lib" where
  "stub routes =
     \<lparr>ParseURL = stub_ParseURL, DefaultClient = stub_client routes,
      Marshal = stub_Marshal, Decode = stub_Decode\<rparr>"

definition stub_world :: "unit world" where
  "stub_world = \<lparr>remote = (), sent = [], stdout = [], clients = Map.empty, next_addr = 1\<rparr>"

text \<open>The world with one client, constructed at address 1.\<close>

definition with_client :: "(string \<times> int \<times> string) list \<Rightarrow> string \<Rightarrow> string \<Rightarrow> unit world" where
  "with_client routes url token = snd (NewDirectusClient (stub routes) url token stub_world)"

definition stub_DirectusClient ::
  "(string \<times> int \<times> string) list \<Rightarrow> string \<Rightarrow> string \<Rightarrow> unit DirectusClient" where
  "stub_DirectusClient routes url token =
     \<lparr>URL = url, AccessToken = token, HTTPClient = Some (stub_client routes)\<rparr>"

definition base_client :: "(string \<times> int \<times> string) list \<Rightarrow> unit DirectusClient" where
  "base_client routes = stub_DirectusClient routes ''http://base'' ''bt''"

definition target_client :: "(string \<times> int \<times> string) list \<Rightarrow> unit DirectusClient" where
  "target_client routes = stub_DirectusClient routes ''http://target'' ''tt''"

text \<open>Both systems answer as the remote API documents.\<close>

definition routes_ok :: "(string \<times> int \<times> string) list" where
  \<open>routes_ok =
     [(''http://base/schema/snapshot?access_token=bt'', 200, ''{"data":{"fields":[]}}''),
      (''http://target/schema/diff?access_token=tt'', 200, ''{"data":{"changes":[]}}''),
      (''http://target/schema/diff?access_token=tt&force=true'', 200, ''{"data":{"changes":[]}}''),
      (''http://target/schema/apply?access_token=tt'', 204, [])]\<close>

text \<open>The payload of the envelope is an array.\<close>

definition routes_array :: "(string \<times> int \<times> string) list" where
  \<open>routes_array =
     [(''http://base/schema/snapshot?access_token=bt'', 200, ''{"data":[]}''),
      (''http://target/schema/diff?access_token=tt'', 200, ''{"data":[]}'')]\<close>

text \<open>The envelope has no payload.\<close>

definition routes_nodata :: "(string \<times> int \<times> string) list" where
  \<open>routes_nodata =
     [(''http://base/schema/snapshot?access_token=bt'', 200, ''{}''),
      (''http://target/schema/diff?access_token=tt'', 200, ''{}'')]\<close>

text \<open>Every operation is answered with a success status of the 2xx range that is not the
  one it expects.\<close>

definition routes_other_2xx :: "(string \<times> int \<times> string) list" where
  \<open>routes_other_2xx =
     [(''http://base/schema/snapshot?access_token=bt'', 201, ''{"data":{"fields":[]}}''),
      (''http://target/schema/diff?access_token=tt'', 204, []),
      (''http://target/schema/apply?access_token=tt'', 200, [])]\<close>

text \<open>Every operation is rejected.\<close>

definition routes_rejected :: "(string \<times> int \<times> string) list" where
  \<open>routes_rejected =
     [(''http://base/schema/snapshot?access_token=bt'', 500, ''internal error''),
      (''http://target/schema/diff?access_token=tt'', 403, ''forbidden''),
      (''http://target/schema/apply?access_token=tt'', 400, ''{"error":"conflict"}'')]\<close>

text \<open>The number of positions of a text at which a pattern occurs.\<close>

fun occurrences :: "'a list \<Rightarrow> 'a list \<Rightarrow> nat" where
  "occurrences p [] = (if p = [] then 1 else 0)"
| "occurrences p (x # xs) = (if prefix p (x # xs) then 1 else 0) + occurrences p xs"

text \<open>The target answers a diff request whose token ends in the text of the flag.\<close>

definition routes_flag_token :: "(string \<times> int \<times> string) list" where
  \<open>routes_flag_token =
     [(''http://target/schema/diff?access_token=t&force=true'', 200, ''{"data":{"changes":[]}}''),
      (''http://target/schema/diff?access_token=t&force=true&force=true'', 200,
         ''{"data":{"changes":[]}}'')]\<close>

text \<open>The client that \<open>NewDirectusClient\<close> constructs.\<close>

definition new_client :: "'w lib \<Rightarrow> string \<Rightarrow> string \<Rightarrow> 'w DirectusClient" where
  "new_client l url accessToken =
     \<lparr>URL = url, AccessToken = accessToken, HTTPClient = Some (DefaultClient l)\<rparr>"

text \<open>The worlds in which \<open>Migrate\<close> invokes its three steps: \<open>GetSnapshot\<close> after both
  clients are constructed and the first line is printed, \<open>GetDiff\<close> and \<open>ApplyDiff\<close> after
  two more lines each.\<close>

definition snapshot_world ::
  "'w lib \<Rightarrow> string \<Rightarrow> string \<Rightarrow> string \<Rightarrow> string \<Rightarrow> 'w world \<Rightarrow> 'w world" where
  "snapshot_world l baseURL baseToken targetURL targetToken w0 =
     Println ''Retrieving snapshot from base project...''
       (snd (NewDirectusClient l targetURL targetToken
              (snd (NewDirectusClient l baseURL baseToken w0))))"

definition diff_world :: "'w world \<Rightarrow> 'w world" where
  "diff_world w1 =
     Println ''Retrieving diff from target project...''
       (Println ''Snapshot retrieved successfully.'' w1)"

definition apply_world :: "'w world \<Rightarrow> 'w world" where
  "apply_world w2 =
     Println ''Applying diff to target project...''
       (Println ''Diff retrieved successfully.'' w2)"

text \<open>What \<open>Migrate\<close> returns for a failure of a step.\<close>

fun labelled :: "string \<Rightarrow> fault \<Rightarrow> fault" where
  "labelled txt (Err err) = Err (Errorf_w txt err)"
| "labelled txt (Panic p) = Panic p"

text \<open>The base delivers its snapshot and the target refuses the diff.\<close>

definition routes_diff_rejected :: "(string \<times> int \<times> string) list" where
  \<open>routes_diff_rejected =
     [(''http://base/schema/snapshot?access_token=bt'', 200, ''{"data":{"fields":[]}}''),
      (''http://target/schema/diff?access_token=tt'', 403, ''forbidden''),
      (''http://target/schema/apply?access_token=tt'', 204, [])]\<close>


text \<open>Reading a decimal numeral, the inverse of the verb \<^verbatim>\<open>%d\<close>.\<close>

definition digit_val :: "char \<Rightarrow> nat" where
  "digit_val ch = of_char ch - 48"

definition decimal :: "string \<Rightarrow> nat" where
  "decimal s = foldl (\<lambda>a ch. 10 * a + digit_val ch) 0 s"

definition parse_d :: "string \<Rightarrow> int" where
  "parse_d s = (case s of
                  [] \<Rightarrow> 0
                | ch # r \<Rightarrow> if ch = CHR ''-'' then - int (decimal r) else int (decimal s))"

section \<open>What each operation does with a response\<close>

lemmas op_defs = GetSnapshot_def GetDiff_def ApplyDiff_def NewRequest_def Do_def Header_Set_def
  ReadAll_def Let_def

lemmas request_defs = snapshot_request_def diff_request_def apply_request_def accepted_def
  answers_def

lemmas stub_defs = stub_def stub_ParseURL_def parsed_urls_def token_with_newline_def
  stub_client_def stub_Decode_def
  stub_Marshal_def stub_world_def with_client_def NewDirectusClient_def stub_DirectusClient_def
  base_client_def target_client_def

lemma answersD:
  assumes "answers cl w req resp"
  shows "\<exists>h n. HTTPClient cl = Some h \<and> h (remote w) req = (Inr resp, n)"
proof (cases "HTTPClient cl")
  case None
  with assms show ?thesis by (simp add: answers_def)
next
  case (Some h)
  with assms have "fst (h (remote w) req) = Inr resp" by (simp add: answers_def)
  then have "h (remote w) req = (Inr resp, snd (h (remote w) req))"
    by (cases "h (remote w) req") simp
  with Some show ?thesis by blast
qed

lemma GetSnapshot_status:
  assumes "clients w c = Some cl" and "HTTPClient cl = Some h"
    and "ParseURL l (ReqURL (snapshot_request cl)) = None"
    and "h (remote w) (snapshot_request cl) = (Inr resp, n)"
    and "StatusCode resp \<noteq> 200"
  shows "GetSnapshot l c w =
           (Inl (Err (ErrorString (''snapshot request failed with status ''
              @ fmt_d (StatusCode resp) @ '': '' @ fst (Body resp)))),
            after_send w (snapshot_request cl) n)"
  using assms by (simp add: op_defs snapshot_request_def after_send_def)

lemma GetSnapshot_data:
  assumes "clients w c = Some cl" and "HTTPClient cl = Some h"
    and "ParseURL l (ReqURL (snapshot_request cl)) = None"
    and "h (remote w) (snapshot_request cl) = (Inr resp, n)"
    and "StatusCode resp = 200"
    and "Decode l (Body resp) = Inr result"
  shows "GetSnapshot l c w =
           (case result ''data'' of
              Some v \<Rightarrow> assert_map v
            | None \<Rightarrow> Inl (Err (ErrorString ''snapshot response does not contain 'data' field'')),
            after_send w (snapshot_request cl) n)"
  using assms by (simp add: op_defs snapshot_request_def after_send_def split: option.splits)

lemma GetDiff_status:
  assumes "clients w c = Some cl" and "HTTPClient cl = Some h"
    and "Marshal l snapshot = Inr b"
    and "ParseURL l (ReqURL (diff_request cl b force)) = None"
    and "h (remote w) (diff_request cl b force) = (Inr resp, n)"
    and "StatusCode resp \<noteq> 200"
  shows "GetDiff l c snapshot force w =
           (Inl (Err (ErrorString (''diff request failed with status ''
              @ fmt_d (StatusCode resp) @ '': '' @ fst (Body resp)))),
            after_send w (diff_request cl b force) n)"
  using assms by (cases force) (simp_all add: op_defs diff_request_def after_send_def)

lemma GetDiff_data:
  assumes "clients w c = Some cl" and "HTTPClient cl = Some h"
    and "Marshal l snapshot = Inr b"
    and "ParseURL l (ReqURL (diff_request cl b force)) = None"
    and "h (remote w) (diff_request cl b force) = (Inr resp, n)"
    and "StatusCode resp = 200"
    and "Decode l (Body resp) = Inr result"
  shows "GetDiff l c snapshot force w =
           (case result ''data'' of
              Some v \<Rightarrow> assert_map v
            | None \<Rightarrow> Inl (Err (ErrorString ''diff response does not contain 'data' field'')),
            after_send w (diff_request cl b force) n)"
  using assms
  by (cases force) (simp_all add: op_defs diff_request_def after_send_def split: option.splits)

lemma ApplyDiff_status:
  assumes "clients w c = Some cl" and "HTTPClient cl = Some h"
    and "Marshal l diff = Inr b"
    and "ParseURL l (ReqURL (apply_request cl b)) = None"
    and "h (remote w) (apply_request cl b) = (Inr resp, n)"
  shows "ApplyDiff l c diff w =
           (if StatusCode resp \<noteq> 204
            then Some (Err (ErrorString (''apply request failed with status ''
              @ fmt_d (StatusCode resp) @ '': '' @ fst (Body resp))))
            else None,
            after_send w (apply_request cl b) n)"
  using assms by (simp add: op_defs apply_request_def after_send_def)

lemma GetSnapshot_success:
  assumes "fst (GetSnapshot l c w) = Inr x"
  shows "\<exists>cl resp. clients w c = Some cl \<and> answers cl w (snapshot_request cl) resp
           \<and> StatusCode resp = 200"
  using assms
  by (auto simp: op_defs request_defs
      split: option.splits sum.splits prod.splits fault.splits if_splits)

lemma GetDiff_success:
  assumes "fst (GetDiff l c snapshot force w) = Inr x"
  shows "\<exists>cl b resp. clients w c = Some cl \<and> Marshal l snapshot = Inr b
           \<and> answers cl w (diff_request cl b force) resp \<and> StatusCode resp = 200"
  using assms
  by (auto simp: op_defs request_defs
      split: option.splits sum.splits prod.splits fault.splits if_splits)

lemma ApplyDiff_success:
  assumes "fst (ApplyDiff l c diff w) = None"
  shows "\<exists>cl b resp. clients w c = Some cl \<and> Marshal l diff = Inr b
           \<and> answers cl w (apply_request cl b) resp \<and> StatusCode resp = 204"
  using assms
  by (auto simp: op_defs request_defs
      split: option.splits sum.splits prod.splits fault.splits if_splits)

section \<open>Unwrapping the envelope\<close>

text \<open>
  Claim C1, as amended. For every response with status 200 whose body decodes as an
  object with a \<open>data\<close> member whose value is itself an object \<open>x\<close>, \<open>GetSnapshot\<close> and
  \<open>GetDiff\<close> return \<open>x\<close> and no error. Nothing is stated for a \<open>data\<close> member of any other
  shape: the operations return a \<^verbatim>\<open>map[string]any\<close>, which such a value is not.
\<close>

theorem data_mapping_returned:
  "(clients w c = Some cl \<and> accepted l (snapshot_request cl)
      \<and> answers cl w (snapshot_request cl) resp \<and> StatusCode resp = 200
      \<and> Decode l (Body resp) = Inr result \<and> result ''data'' = Some (AMap x)
    \<longrightarrow> fst (GetSnapshot l c w) = Inr x)
   \<and> (clients w c = Some cl \<and> Marshal l snapshot = Inr b \<and> accepted l (diff_request cl b force)
      \<and> answers cl w (diff_request cl b force) resp \<and> StatusCode resp = 200
      \<and> Decode l (Body resp) = Inr result \<and> result ''data'' = Some (AMap x)
    \<longrightarrow> fst (GetDiff l c snapshot force w) = Inr x)"
proof (intro conjI impI)
  assume a: "clients w c = Some cl \<and> accepted l (snapshot_request cl)
      \<and> answers cl w (snapshot_request cl) resp \<and> StatusCode resp = 200
      \<and> Decode l (Body resp) = Inr result \<and> result ''data'' = Some (AMap x)"
  then obtain h n where "HTTPClient cl = Some h" "h (remote w) (snapshot_request cl) = (Inr resp, n)"
    using answersD by blast
  with a show "fst (GetSnapshot l c w) = Inr x"
    by (simp add: GetSnapshot_data [where result = result] accepted_def)
next
  assume a: "clients w c = Some cl \<and> Marshal l snapshot = Inr b
      \<and> accepted l (diff_request cl b force)
      \<and> answers cl w (diff_request cl b force) resp \<and> StatusCode resp = 200
      \<and> Decode l (Body resp) = Inr result \<and> result ''data'' = Some (AMap x)"
  then obtain h n where "HTTPClient cl = Some h"
    "h (remote w) (diff_request cl b force) = (Inr resp, n)"
    using answersD by blast
  with a show "fst (GetDiff l c snapshot force w) = Inr x"
    by (simp add: GetDiff_data [where result = result] accepted_def)
qed

text \<open>The base answers the snapshot request with \<^verbatim>\<open>{"data":{"fields":[]}}\<close> and the target
  answers the forced diff request with \<^verbatim>\<open>{"data":{"changes":[]}}\<close>: the two documents are
  returned.\<close>

theorem data_mapping_returned_witness:
  \<open>fst (GetSnapshot (stub routes_ok) 1 (with_client routes_ok ''http://base'' ''bt''))
      = Inr [''fields'' \<mapsto> ASlice []]
   \<and> fst (GetDiff (stub routes_ok) 1 [''fields'' \<mapsto> ASlice []] True
            (with_client routes_ok ''http://target'' ''tt''))
      = Inr [''changes'' \<mapsto> ASlice []]\<close>
proof -
  have s: \<open>clients (with_client routes_ok ''http://base'' ''bt'') 1 = Some (base_client routes_ok)
      \<and> accepted (stub routes_ok) (snapshot_request (base_client routes_ok))
      \<and> answers (base_client routes_ok) (with_client routes_ok ''http://base'' ''bt'')
           (snapshot_request (base_client routes_ok))
           \<lparr>StatusCode = 200, Body = (''{"data":{"fields":[]}}'', None)\<rparr>
      \<and> StatusCode \<lparr>StatusCode = 200, Body = (''{"data":{"fields":[]}}'', None)\<rparr> = 200
      \<and> Decode (stub routes_ok)
           (Body \<lparr>StatusCode = 200, Body = (''{"data":{"fields":[]}}'', None)\<rparr>)
           = Inr [''data'' \<mapsto> AMap [''fields'' \<mapsto> ASlice []]]
      \<and> [''data'' \<mapsto> AMap [''fields'' \<mapsto> ASlice []]] ''data''
           = Some (AMap [''fields'' \<mapsto> ASlice []])\<close>
    by (simp add: stub_defs request_defs routes_ok_def)
  have d: \<open>clients (with_client routes_ok ''http://target'' ''tt'') 1
           = Some (target_client routes_ok)
      \<and> Marshal (stub routes_ok) [''fields'' \<mapsto> ASlice []] = Inr ''{"fields":[]}''
      \<and> accepted (stub routes_ok) (diff_request (target_client routes_ok) ''{"fields":[]}'' True)
      \<and> answers (target_client routes_ok) (with_client routes_ok ''http://target'' ''tt'')
           (diff_request (target_client routes_ok) ''{"fields":[]}'' True)
           \<lparr>StatusCode = 200, Body = (''{"data":{"changes":[]}}'', None)\<rparr>
      \<and> StatusCode \<lparr>StatusCode = 200, Body = (''{"data":{"changes":[]}}'', None)\<rparr> = 200
      \<and> Decode (stub routes_ok)
           (Body \<lparr>StatusCode = 200, Body = (''{"data":{"changes":[]}}'', None)\<rparr>)
           = Inr [''data'' \<mapsto> AMap [''changes'' \<mapsto> ASlice []]]
      \<and> [''data'' \<mapsto> AMap [''changes'' \<mapsto> ASlice []]] ''data''
           = Some (AMap [''changes'' \<mapsto> ASlice []])\<close>
    by (simp add: stub_defs request_defs routes_ok_def)
  from s d show ?thesis
    using data_mapping_returned by blast
qed

text \<open>Both systems answer with status 200 and the body \<^verbatim>\<open>{"data":[]}\<close>, which decodes
  as an object whose \<open>data\<close> member is the empty array. Neither operation returns it:
  both panic in the type assertion.\<close>

theorem data_array_panics:
  \<open>answers (base_client routes_array) (with_client routes_array ''http://base'' ''bt'')
      (snapshot_request (base_client routes_array))
      \<lparr>StatusCode = 200, Body = (''{"data":[]}'', None)\<rparr>
   \<and> answers (target_client routes_array) (with_client routes_array ''http://target'' ''tt'')
      (diff_request (target_client routes_array) ''{}'' False)
      \<lparr>StatusCode = 200, Body = (''{"data":[]}'', None)\<rparr>
   \<and> Decode (stub routes_array) (''{"data":[]}'', None) = Inr [''data'' \<mapsto> ASlice []]
   \<and> fst (GetSnapshot (stub routes_array) 1 (with_client routes_array ''http://base'' ''bt''))
      = Inl (Panic
          ''interface conversion: interface {} is []interface {}, not map[string]interface {}'')
   \<and> fst (GetDiff (stub routes_array) 1 Map.empty False
            (with_client routes_array ''http://target'' ''tt''))
      = Inl (Panic
          ''interface conversion: interface {} is []interface {}, not map[string]interface {}'')\<close>
  by (simp add: stub_defs request_defs routes_array_def op_defs)

text \<open>
  Claim C3. For every response with status 200 whose body decodes as an object without a
  \<open>data\<close> member, \<open>GetSnapshot\<close> and \<open>GetDiff\<close> return the error that says so, and no
  value.
\<close>

theorem data_missing_is_error:
  "(clients w c = Some cl \<and> accepted l (snapshot_request cl)
      \<and> answers cl w (snapshot_request cl) resp \<and> StatusCode resp = 200
      \<and> Decode l (Body resp) = Inr result \<and> result ''data'' = None
    \<longrightarrow> fst (GetSnapshot l c w)
          = Inl (Err (ErrorString ''snapshot response does not contain 'data' field'')))
   \<and> (clients w c = Some cl \<and> Marshal l snapshot = Inr b \<and> accepted l (diff_request cl b force)
      \<and> answers cl w (diff_request cl b force) resp \<and> StatusCode resp = 200
      \<and> Decode l (Body resp) = Inr result \<and> result ''data'' = None
    \<longrightarrow> fst (GetDiff l c snapshot force w)
          = Inl (Err (ErrorString ''diff response does not contain 'data' field'')))"
proof (intro conjI impI)
  assume a: "clients w c = Some cl \<and> accepted l (snapshot_request cl)
      \<and> answers cl w (snapshot_request cl) resp \<and> StatusCode resp = 200
      \<and> Decode l (Body resp) = Inr result \<and> result ''data'' = None"
  then obtain h n where "HTTPClient cl = Some h" "h (remote w) (snapshot_request cl) = (Inr resp, n)"
    using answersD by blast
  with a show "fst (GetSnapshot l c w)
      = Inl (Err (ErrorString ''snapshot response does not contain 'data' field''))"
    by (simp add: GetSnapshot_data [where result = result] accepted_def)
next
  assume a: "clients w c = Some cl \<and> Marshal l snapshot = Inr b
      \<and> accepted l (diff_request cl b force)
      \<and> answers cl w (diff_request cl b force) resp \<and> StatusCode resp = 200
      \<and> Decode l (Body resp) = Inr result \<and> result ''data'' = None"
  then obtain h n where "HTTPClient cl = Some h"
    "h (remote w) (diff_request cl b force) = (Inr resp, n)"
    using answersD by blast
  with a show "fst (GetDiff l c snapshot force w)
      = Inl (Err (ErrorString ''diff response does not contain 'data' field''))"
    by (simp add: GetDiff_data [where result = result] accepted_def)
qed

text \<open>Both systems answer with status 200 and the body \<^verbatim>\<open>{}\<close>.\<close>

theorem data_missing_is_error_witness:
  \<open>fst (GetSnapshot (stub routes_nodata) 1 (with_client routes_nodata ''http://base'' ''bt''))
      = Inl (Err (ErrorString ''snapshot response does not contain 'data' field''))
   \<and> fst (GetDiff (stub routes_nodata) 1 Map.empty False
            (with_client routes_nodata ''http://target'' ''tt''))
      = Inl (Err (ErrorString ''diff response does not contain 'data' field''))\<close>
proof -
  have s: \<open>clients (with_client routes_nodata ''http://base'' ''bt'') 1
           = Some (base_client routes_nodata)
      \<and> accepted (stub routes_nodata) (snapshot_request (base_client routes_nodata))
      \<and> answers (base_client routes_nodata) (with_client routes_nodata ''http://base'' ''bt'')
           (snapshot_request (base_client routes_nodata))
           \<lparr>StatusCode = 200, Body = (''{}'', None)\<rparr>
      \<and> StatusCode \<lparr>StatusCode = 200, Body = (''{}'', None)\<rparr> = 200
      \<and> Decode (stub routes_nodata) (Body \<lparr>StatusCode = 200, Body = (''{}'', None)\<rparr>)
           = Inr Map.empty
      \<and> (Map.empty :: gomap) ''data'' = None\<close>
    by (simp add: stub_defs request_defs routes_nodata_def)
  have d: \<open>clients (with_client routes_nodata ''http://target'' ''tt'') 1
           = Some (target_client routes_nodata)
      \<and> Marshal (stub routes_nodata) Map.empty = Inr ''{}''
      \<and> accepted (stub routes_nodata) (diff_request (target_client routes_nodata) ''{}'' False)
      \<and> answers (target_client routes_nodata) (with_client routes_nodata ''http://target'' ''tt'')
           (diff_request (target_client routes_nodata) ''{}'' False)
           \<lparr>StatusCode = 200, Body = (''{}'', None)\<rparr>
      \<and> StatusCode \<lparr>StatusCode = 200, Body = (''{}'', None)\<rparr> = 200
      \<and> Decode (stub routes_nodata) (Body \<lparr>StatusCode = 200, Body = (''{}'', None)\<rparr>)
           = Inr Map.empty
      \<and> (Map.empty :: gomap) ''data'' = None\<close>
    by (simp add: stub_defs request_defs routes_nodata_def)
  from s d show ?thesis
    using data_missing_is_error by blast
qed

section \<open>Status codes\<close>

lemmas fmt_defs = fmt_d_def digits.simps digit_char_def

lemma digit_val_digit_char: "d < 10 \<Longrightarrow> digit_val (digit_char d) = d"
proof -
  assume "d < 10"
  then have "d = 0 \<or> d = 1 \<or> d = 2 \<or> d = 3 \<or> d = 4 \<or> d = 5 \<or> d = 6 \<or> d = 7
      \<or> d = 8 \<or> d = 9"
    by arith
  then consider "d = 0" | "d = 1" | "d = 2" | "d = 3" | "d = 4" | "d = 5" | "d = 6" | "d = 7"
    | "d = 8" | "d = 9"
    by blast
  then show ?thesis
    by cases (simp_all add: digit_char_def digit_val_def)
qed

lemma digit_char_not_minus: "digit_char d \<noteq> CHR ''-''"
proof -
  have "digit_char d \<in> set ''0123456789''"
    unfolding digit_char_def by (rule nth_mem) simp
  then show ?thesis by auto
qed

lemma decimal_digits: "decimal (digits n) = n"
proof (induction n rule: digits.induct)
  case (1 n)
  show ?case
  proof (cases "n < 10")
    case True
    then show ?thesis
      by (simp add: digits.simps [of n] decimal_def digit_val_digit_char)
  next
    case False
    with 1 have "decimal (digits (n div 10)) = n div 10" by simp
    with False show ?thesis
      by (simp add: digits.simps [of n] decimal_def digit_val_digit_char)
  qed
qed

lemma hd_digits_not_minus: "digits n \<noteq> [] \<and> hd (digits n) \<noteq> CHR ''-''"
proof (induction n rule: digits.induct)
  case (1 n)
  show ?case
  proof (cases "n < 10")
    case True
    then show ?thesis
      by (simp add: digits.simps [of n] digit_char_not_minus)
  next
    case False
    with 1 have "digits (n div 10) \<noteq> [] \<and> hd (digits (n div 10)) \<noteq> CHR ''-''" by simp
    with False show ?thesis
      by (simp add: digits.simps [of n])
  qed
qed

text \<open>The status code can be read back from its rendering.\<close>

lemma parse_d_fmt_d: "parse_d (fmt_d i) = i"
proof (cases "i < 0")
  case True
  then show ?thesis
    by (simp add: fmt_d_def parse_d_def decimal_digits)
next
  case False
  obtain ch r where d: "digits (nat i) = ch # r" "ch \<noteq> CHR ''-''"
    using hd_digits_not_minus [of "nat i"] by (cases "digits (nat i)") auto
  have "decimal (ch # r) = nat i"
    using decimal_digits [of "nat i"] d by simp
  with False d show ?thesis
    by (simp add: fmt_d_def parse_d_def)
qed

text \<open>
  Claim C4. \<open>GetSnapshot\<close> and \<open>GetDiff\<close> succeed only when the response has status
  exactly 200, and \<open>ApplyDiff\<close> only when it has status exactly 204; a response with any
  other status makes the operation return an error.
\<close>

theorem success_only_on_exact_status:
  "(fst (GetSnapshot l c w) = Inr x
    \<longrightarrow> (\<exists>cl resp. clients w c = Some cl \<and> answers cl w (snapshot_request cl) resp
          \<and> StatusCode resp = 200))
   \<and> (fst (GetDiff l c snapshot force w) = Inr x
    \<longrightarrow> (\<exists>cl b resp. clients w c = Some cl \<and> Marshal l snapshot = Inr b
          \<and> answers cl w (diff_request cl b force) resp \<and> StatusCode resp = 200))
   \<and> (fst (ApplyDiff l c diff w) = None
    \<longrightarrow> (\<exists>cl b resp. clients w c = Some cl \<and> Marshal l diff = Inr b
          \<and> answers cl w (apply_request cl b) resp \<and> StatusCode resp = 204))
   \<and> (clients w c = Some cl \<and> accepted l (snapshot_request cl)
      \<and> answers cl w (snapshot_request cl) resp \<and> StatusCode resp \<noteq> 200
    \<longrightarrow> (\<exists>e. fst (GetSnapshot l c w) = Inl (Err e)))
   \<and> (clients w c = Some cl \<and> Marshal l snapshot = Inr b \<and> accepted l (diff_request cl b force)
      \<and> answers cl w (diff_request cl b force) resp \<and> StatusCode resp \<noteq> 200
    \<longrightarrow> (\<exists>e. fst (GetDiff l c snapshot force w) = Inl (Err e)))
   \<and> (clients w c = Some cl \<and> Marshal l diff = Inr b \<and> accepted l (apply_request cl b)
      \<and> answers cl w (apply_request cl b) resp \<and> StatusCode resp \<noteq> 204
    \<longrightarrow> (\<exists>e. fst (ApplyDiff l c diff w) = Some (Err e)))"
proof (intro conjI impI)
  assume "fst (GetSnapshot l c w) = Inr x"
  then show "\<exists>cl resp. clients w c = Some cl \<and> answers cl w (snapshot_request cl) resp
      \<and> StatusCode resp = 200"
    by (rule GetSnapshot_success)
next
  assume "fst (GetDiff l c snapshot force w) = Inr x"
  then show "\<exists>cl b resp. clients w c = Some cl \<and> Marshal l snapshot = Inr b
      \<and> answers cl w (diff_request cl b force) resp \<and> StatusCode resp = 200"
    by (rule GetDiff_success)
next
  assume "fst (ApplyDiff l c diff w) = None"
  then show "\<exists>cl b resp. clients w c = Some cl \<and> Marshal l diff = Inr b
      \<and> answers cl w (apply_request cl b) resp \<and> StatusCode resp = 204"
    by (rule ApplyDiff_success)
next
  assume a: "clients w c = Some cl \<and> accepted l (snapshot_request cl)
      \<and> answers cl w (snapshot_request cl) resp \<and> StatusCode resp \<noteq> 200"
  then obtain h n where "HTTPClient cl = Some h" "h (remote w) (snapshot_request cl) = (Inr resp, n)"
    using answersD by blast
  with a show "\<exists>e. fst (GetSnapshot l c w) = Inl (Err e)"
    by (simp add: GetSnapshot_status accepted_def)
next
  assume a: "clients w c = Some cl \<and> Marshal l snapshot = Inr b
      \<and> accepted l (diff_request cl b force)
      \<and> answers cl w (diff_request cl b force) resp \<and> StatusCode resp \<noteq> 200"
  then obtain h n where "HTTPClient cl = Some h"
    "h (remote w) (diff_request cl b force) = (Inr resp, n)"
    using answersD by blast
  with a show "\<exists>e. fst (GetDiff l c snapshot force w) = Inl (Err e)"
    by (simp add: GetDiff_status accepted_def)
next
  assume a: "clients w c = Some cl \<and> Marshal l diff = Inr b \<and> accepted l (apply_request cl b)
      \<and> answers cl w (apply_request cl b) resp \<and> StatusCode resp \<noteq> 204"
  then obtain h n where "HTTPClient cl = Some h" "h (remote w) (apply_request cl b) = (Inr resp, n)"
    using answersD by blast
  with a show "\<exists>e. fst (ApplyDiff l c diff w) = Some (Err e)"
    by (simp add: ApplyDiff_status accepted_def)
qed

text \<open>The successful runs were answered with 200, 200 and 204; the answers 201, 204 and
  200 make \<open>GetSnapshot\<close>, \<open>GetDiff\<close> and \<open>ApplyDiff\<close> fail.\<close>

theorem success_only_on_exact_status_witness:
  \<open>(\<exists>cl resp. clients (with_client routes_ok ''http://base'' ''bt'') 1 = Some cl
       \<and> answers cl (with_client routes_ok ''http://base'' ''bt'') (snapshot_request cl) resp
       \<and> StatusCode resp = 200)
   \<and> (\<exists>cl b resp. clients (with_client routes_ok ''http://target'' ''tt'') 1 = Some cl
       \<and> Marshal (stub routes_ok) Map.empty = Inr b
       \<and> answers cl (with_client routes_ok ''http://target'' ''tt'') (diff_request cl b False) resp
       \<and> StatusCode resp = 200)
   \<and> (\<exists>cl b resp. clients (with_client routes_ok ''http://target'' ''tt'') 1 = Some cl
       \<and> Marshal (stub routes_ok) Map.empty = Inr b
       \<and> answers cl (with_client routes_ok ''http://target'' ''tt'') (apply_request cl b) resp
       \<and> StatusCode resp = 204)
   \<and> (\<exists>e. fst (GetSnapshot (stub routes_other_2xx) 1
                (with_client routes_other_2xx ''http://base'' ''bt'')) = Inl (Err e))
   \<and> (\<exists>e. fst (GetDiff (stub routes_other_2xx) 1 Map.empty False
                (with_client routes_other_2xx ''http://target'' ''tt'')) = Inl (Err e))
   \<and> (\<exists>e. fst (ApplyDiff (stub routes_other_2xx) 1 Map.empty
                (with_client routes_other_2xx ''http://target'' ''tt'')) = Some (Err e))\<close>
proof -
  have s: \<open>fst (GetSnapshot (stub routes_ok) 1 (with_client routes_ok ''http://base'' ''bt''))
      = Inr [''fields'' \<mapsto> ASlice []]\<close>
    by (simp add: stub_defs routes_ok_def op_defs)
  have d: \<open>fst (GetDiff (stub routes_ok) 1 Map.empty False
      (with_client routes_ok ''http://target'' ''tt'')) = Inr [''changes'' \<mapsto> ASlice []]\<close>
    by (simp add: stub_defs routes_ok_def op_defs)
  have a: \<open>fst (ApplyDiff (stub routes_ok) 1 Map.empty
      (with_client routes_ok ''http://target'' ''tt'')) = None\<close>
    by (simp add: stub_defs routes_ok_def op_defs)
  have s': \<open>clients (with_client routes_other_2xx ''http://base'' ''bt'') 1
        = Some (base_client routes_other_2xx)
      \<and> accepted (stub routes_other_2xx) (snapshot_request (base_client routes_other_2xx))
      \<and> answers (base_client routes_other_2xx)
           (with_client routes_other_2xx ''http://base'' ''bt'')
           (snapshot_request (base_client routes_other_2xx))
           \<lparr>StatusCode = 201, Body = (''{"data":{"fields":[]}}'', None)\<rparr>
      \<and> StatusCode \<lparr>StatusCode = 201, Body = (''{"data":{"fields":[]}}'', None)\<rparr> \<noteq> 200\<close>
    by (simp add: stub_defs request_defs routes_other_2xx_def)
  have d': \<open>clients (with_client routes_other_2xx ''http://target'' ''tt'') 1
        = Some (target_client routes_other_2xx)
      \<and> Marshal (stub routes_other_2xx) Map.empty = Inr ''{}''
      \<and> accepted (stub routes_other_2xx)
           (diff_request (target_client routes_other_2xx) ''{}'' False)
      \<and> answers (target_client routes_other_2xx)
           (with_client routes_other_2xx ''http://target'' ''tt'')
           (diff_request (target_client routes_other_2xx) ''{}'' False)
           \<lparr>StatusCode = 204, Body = ([], None)\<rparr>
      \<and> StatusCode \<lparr>StatusCode = 204, Body = ([], None)\<rparr> \<noteq> 200\<close>
    by (simp add: stub_defs request_defs routes_other_2xx_def)
  have a': \<open>clients (with_client routes_other_2xx ''http://target'' ''tt'') 1
        = Some (target_client routes_other_2xx)
      \<and> Marshal (stub routes_other_2xx) Map.empty = Inr ''{}''
      \<and> accepted (stub routes_other_2xx) (apply_request (target_client routes_other_2xx) ''{}'')
      \<and> answers (target_client routes_other_2xx)
           (with_client routes_other_2xx ''http://target'' ''tt'')
           (apply_request (target_client routes_other_2xx) ''{}'')
           \<lparr>StatusCode = 200, Body = ([], None)\<rparr>
      \<and> StatusCode \<lparr>StatusCode = 200, Body = ([], None)\<rparr> \<noteq> 204\<close>
    by (simp add: stub_defs request_defs routes_other_2xx_def)
  note t = success_only_on_exact_status
  from s have 1: \<open>\<exists>cl resp. clients (with_client routes_ok ''http://base'' ''bt'') 1 = Some cl
       \<and> answers cl (with_client routes_ok ''http://base'' ''bt'') (snapshot_request cl) resp
       \<and> StatusCode resp = 200\<close>
    using t by blast
  from d have 2: \<open>\<exists>cl b resp. clients (with_client routes_ok ''http://target'' ''tt'') 1 = Some cl
       \<and> Marshal (stub routes_ok) Map.empty = Inr b
       \<and> answers cl (with_client routes_ok ''http://target'' ''tt'') (diff_request cl b False) resp
       \<and> StatusCode resp = 200\<close>
    using t by blast
  from a have 3: \<open>\<exists>cl b resp. clients (with_client routes_ok ''http://target'' ''tt'') 1 = Some cl
       \<and> Marshal (stub routes_ok) Map.empty = Inr b
       \<and> answers cl (with_client routes_ok ''http://target'' ''tt'') (apply_request cl b) resp
       \<and> StatusCode resp = 204\<close>
    using t by blast
  from s' have 4: \<open>\<exists>e. fst (GetSnapshot (stub routes_other_2xx) 1
                (with_client routes_other_2xx ''http://base'' ''bt'')) = Inl (Err e)\<close>
    using t by blast
  from d' have 5: \<open>\<exists>e. fst (GetDiff (stub routes_other_2xx) 1 Map.empty False
                (with_client routes_other_2xx ''http://target'' ''tt'')) = Inl (Err e)\<close>
    using t by blast
  from a' have 6: \<open>\<exists>e. fst (ApplyDiff (stub routes_other_2xx) 1 Map.empty
                (with_client routes_other_2xx ''http://target'' ''tt'')) = Some (Err e)\<close>
    using t by blast
  from 1 2 3 4 5 6 show ?thesis by blast
qed

text \<open>
  Claim C5. For every response whose status is not the one the operation expects, the
  returned error carries that status, in decimal, and the bytes of the response body,
  unchanged.
\<close>

theorem rejection_carries_status_and_body:
  "(clients w c = Some cl \<and> accepted l (snapshot_request cl)
      \<and> answers cl w (snapshot_request cl) resp \<and> StatusCode resp \<noteq> 200
    \<longrightarrow> fst (GetSnapshot l c w)
          = Inl (Err (ErrorString (''snapshot request failed with status ''
              @ fmt_d (StatusCode resp) @ '': '' @ fst (Body resp)))))
   \<and> (clients w c = Some cl \<and> Marshal l snapshot = Inr b \<and> accepted l (diff_request cl b force)
      \<and> answers cl w (diff_request cl b force) resp \<and> StatusCode resp \<noteq> 200
    \<longrightarrow> fst (GetDiff l c snapshot force w)
          = Inl (Err (ErrorString (''diff request failed with status ''
              @ fmt_d (StatusCode resp) @ '': '' @ fst (Body resp)))))
   \<and> (clients w c = Some cl \<and> Marshal l diff = Inr b \<and> accepted l (apply_request cl b)
      \<and> answers cl w (apply_request cl b) resp \<and> StatusCode resp \<noteq> 204
    \<longrightarrow> fst (ApplyDiff l c diff w)
          = Some (Err (ErrorString (''apply request failed with status ''
              @ fmt_d (StatusCode resp) @ '': '' @ fst (Body resp)))))"
proof (intro conjI impI)
  assume a: "clients w c = Some cl \<and> accepted l (snapshot_request cl)
      \<and> answers cl w (snapshot_request cl) resp \<and> StatusCode resp \<noteq> 200"
  then obtain h n where "HTTPClient cl = Some h" "h (remote w) (snapshot_request cl) = (Inr resp, n)"
    using answersD by blast
  with a show "fst (GetSnapshot l c w)
      = Inl (Err (ErrorString (''snapshot request failed with status ''
          @ fmt_d (StatusCode resp) @ '': '' @ fst (Body resp))))"
    by (simp add: GetSnapshot_status accepted_def)
next
  assume a: "clients w c = Some cl \<and> Marshal l snapshot = Inr b
      \<and> accepted l (diff_request cl b force)
      \<and> answers cl w (diff_request cl b force) resp \<and> StatusCode resp \<noteq> 200"
  then obtain h n where "HTTPClient cl = Some h"
    "h (remote w) (diff_request cl b force) = (Inr resp, n)"
    using answersD by blast
  with a show "fst (GetDiff l c snapshot force w)
      = Inl (Err (ErrorString (''diff request failed with status ''
          @ fmt_d (StatusCode resp) @ '': '' @ fst (Body resp))))"
    by (simp add: GetDiff_status accepted_def)
next
  assume a: "clients w c = Some cl \<and> Marshal l diff = Inr b \<and> accepted l (apply_request cl b)
      \<and> answers cl w (apply_request cl b) resp \<and> StatusCode resp \<noteq> 204"
  then obtain h n where "HTTPClient cl = Some h" "h (remote w) (apply_request cl b) = (Inr resp, n)"
    using answersD by blast
  with a show "fst (ApplyDiff l c diff w)
      = Some (Err (ErrorString (''apply request failed with status ''
          @ fmt_d (StatusCode resp) @ '': '' @ fst (Body resp))))"
    by (simp add: ApplyDiff_status accepted_def)
qed

text \<open>The answers 500 \<^verbatim>\<open>internal error\<close>, 403 \<^verbatim>\<open>forbidden\<close> and
  400 \<^verbatim>\<open>{"error":"conflict"}\<close>.\<close>

theorem rejection_carries_status_and_body_witness:
  \<open>fst (GetSnapshot (stub routes_rejected) 1 (with_client routes_rejected ''http://base'' ''bt''))
      = Inl (Err (ErrorString ''snapshot request failed with status 500: internal error''))
   \<and> fst (GetDiff (stub routes_rejected) 1 Map.empty False
            (with_client routes_rejected ''http://target'' ''tt''))
      = Inl (Err (ErrorString ''diff request failed with status 403: forbidden''))
   \<and> fst (ApplyDiff (stub routes_rejected) 1 Map.empty
            (with_client routes_rejected ''http://target'' ''tt''))
      = Some (Err (ErrorString ''apply request failed with status 400: {"error":"conflict"}''))\<close>
proof -
  have s: \<open>clients (with_client routes_rejected ''http://base'' ''bt'') 1
        = Some (base_client routes_rejected)
      \<and> accepted (stub routes_rejected) (snapshot_request (base_client routes_rejected))
      \<and> answers (base_client routes_rejected)
           (with_client routes_rejected ''http://base'' ''bt'')
           (snapshot_request (base_client routes_rejected))
           \<lparr>StatusCode = 500, Body = (''internal error'', None)\<rparr>
      \<and> StatusCode \<lparr>StatusCode = 500, Body = (''internal error'', None)\<rparr> \<noteq> 200\<close>
    by (simp add: stub_defs request_defs routes_rejected_def)
  have d: \<open>clients (with_client routes_rejected ''http://target'' ''tt'') 1
        = Some (target_client routes_rejected)
      \<and> Marshal (stub routes_rejected) Map.empty = Inr ''{}''
      \<and> accepted (stub routes_rejected)
           (diff_request (target_client routes_rejected) ''{}'' False)
      \<and> answers (target_client routes_rejected)
           (with_client routes_rejected ''http://target'' ''tt'')
           (diff_request (target_client routes_rejected) ''{}'' False)
           \<lparr>StatusCode = 403, Body = (''forbidden'', None)\<rparr>
      \<and> StatusCode \<lparr>StatusCode = 403, Body = (''forbidden'', None)\<rparr> \<noteq> 200\<close>
    by (simp add: stub_defs request_defs routes_rejected_def)
  have a: \<open>clients (with_client routes_rejected ''http://target'' ''tt'') 1
        = Some (target_client routes_rejected)
      \<and> Marshal (stub routes_rejected) Map.empty = Inr ''{}''
      \<and> accepted (stub routes_rejected) (apply_request (target_client routes_rejected) ''{}'')
      \<and> answers (target_client routes_rejected)
           (with_client routes_rejected ''http://target'' ''tt'')
           (apply_request (target_client routes_rejected) ''{}'')
           \<lparr>StatusCode = 400, Body = (''{"error":"conflict"}'', None)\<rparr>
      \<and> StatusCode \<lparr>StatusCode = 400, Body = (''{"error":"conflict"}'', None)\<rparr> \<noteq> 204\<close>
    by (simp add: stub_defs request_defs routes_rejected_def)
  note t = rejection_carries_status_and_body
  from s have 1: \<open>fst (GetSnapshot (stub routes_rejected) 1
        (with_client routes_rejected ''http://base'' ''bt''))
      = Inl (Err (ErrorString (''snapshot request failed with status ''
          @ fmt_d 500 @ '': '' @ ''internal error'')))\<close>
    using t [where resp = \<open>\<lparr>StatusCode = 500, Body = (''internal error'', None)\<rparr>\<close>]
    by fastforce
  from d have 2: \<open>fst (GetDiff (stub routes_rejected) 1 Map.empty False
        (with_client routes_rejected ''http://target'' ''tt''))
      = Inl (Err (ErrorString (''diff request failed with status ''
          @ fmt_d 403 @ '': '' @ ''forbidden'')))\<close>
    using t [where resp = \<open>\<lparr>StatusCode = 403, Body = (''forbidden'', None)\<rparr>\<close>]
    by fastforce
  from a have 3: \<open>fst (ApplyDiff (stub routes_rejected) 1 Map.empty
        (with_client routes_rejected ''http://target'' ''tt''))
      = Some (Err (ErrorString (''apply request failed with status ''
          @ fmt_d 400 @ '': '' @ ''{"error":"conflict"}'')))\<close>
    using t [where resp = \<open>\<lparr>StatusCode = 400, Body = (''{"error":"conflict"}'', None)\<rparr>\<close>]
    by fastforce
  from 1 2 3 show ?thesis
    by (simp add: fmt_defs)
qed

section \<open>The force flag\<close>

lemma occurrences_short: "length s < length p \<Longrightarrow> occurrences p s = 0"
proof (induction s)
  case Nil
  then show ?case by auto
next
  case (Cons x s)
  then have "\<not> prefix p (x # s)"
    by (auto dest: prefix_length_le)
  with Cons show ?case by simp
qed

lemma prefix_append_own:
  assumes "p = a # q" and "a \<notin> set q" and "u \<noteq> []"
  shows "prefix p (u @ p) \<longleftrightarrow> prefix p u"
proof
  assume "prefix p (u @ p)"
  then have "prefix p u \<or> (\<exists>us. p = u @ us \<and> prefix us p)"
    by (simp only: prefix_append)
  then consider "prefix p u" | us where "p = u @ us" "prefix us p"
    by blast
  then show "prefix p u"
  proof cases
    case 1
    then show ?thesis .
  next
    case 2
    show ?thesis
    proof (cases us)
      case Nil
      with 2 show ?thesis by simp
    next
      case (Cons y ys)
      with 2(2) assms(1) have "prefix (y # ys) (a # q)"
        by simp
      then have "y = a"
        by simp
      moreover from 2 Cons assms(1,3) have "y \<in> set q"
        by (cases u) auto
      ultimately show ?thesis using assms(2) by simp
    qed
  qed
next
  assume "prefix p u"
  then show "prefix p (u @ p)" by (rule prefix_prefix)
qed

lemma occurrences_append_own:
  assumes "p = a # q" and "a \<notin> set q"
  shows "occurrences p (s @ p) = Suc (occurrences p s)"
proof (induction s)
  case Nil
  have "occurrences p q = 0"
    using assms(1) by (simp add: occurrences_short)
  with assms(1) show ?case by simp
next
  case (Cons x s)
  have "prefix p ((x # s) @ p) \<longleftrightarrow> prefix p (x # s)"
    using assms by (intro prefix_append_own) auto
  with Cons show ?case by simp
qed

lemma occurrences_append_separator:
  assumes "p \<noteq> []" and "c \<notin> set p"
  shows "occurrences p (s @ c # t) = occurrences p s + occurrences p (c # t)"
proof (induction s)
  case Nil
  with assms(1) show ?case by simp
next
  case (Cons x s)
  have "prefix p ((x # s) @ c # t) \<longleftrightarrow> prefix p (x # s)"
  proof
    assume "prefix p ((x # s) @ c # t)"
    then have "prefix p (x # s) \<or> (\<exists>us. p = (x # s) @ us \<and> prefix us (c # t))"
      by (simp only: prefix_append)
    then consider "prefix p (x # s)" | us where "p = (x # s) @ us" "prefix us (c # t)"
      by blast
    then show "prefix p (x # s)"
    proof cases
      case 1
      then show ?thesis .
    next
      case 2
      then show ?thesis
        using assms(2) by (cases us) (auto simp: prefix_Cons)
    qed
  next
    assume "prefix p (x # s)"
    then show "prefix p ((x # s) @ c # t)" by (rule prefix_prefix)
  qed
  with Cons show ?case by simp
qed

lemma flag_added_once:
  "occurrences ''&force=true'' (s @ ''&force=true'') = Suc (occurrences ''&force=true'' s)"
  by (rule occurrences_append_own [where a = "CHR ''&''" and q = "''force=true''"]) simp_all

lemma flag_not_in_diff_url:
  assumes "occurrences ''&force=true'' address = 0" and "occurrences ''&force=true'' token = 0"
  shows "occurrences ''&force=true'' (address @ ''/schema/diff?access_token='' @ token) = 0"
proof -
  have "occurrences ''&force=true'' (address @ CHR ''/'' # ''schema/diff?access_token='' @ token)
      = occurrences ''&force=true'' address
        + occurrences ''&force=true'' (CHR ''/'' # ''schema/diff?access_token='' @ token)"
    by (rule occurrences_append_separator) simp_all
  moreover have "occurrences ''&force=true'' (CHR ''/'' # ''schema/diff?access_token='' @ token)
      = occurrences ''&force=true'' token"
    by (simp add: prefix_Cons)
  ultimately show ?thesis using assms by simp
qed

lemma GetDiff_sends:
  assumes "clients w c = Some cl" and "HTTPClient cl = Some h"
    and "Marshal l snapshot = Inr b"
    and "ParseURL l (ReqURL (diff_request cl b force)) = None"
  shows "sent (snd (GetDiff l c snapshot force w)) = sent w @ [diff_request cl b force]"
  using assms
  by (cases force)
    (auto simp: op_defs diff_request_def
      split: option.splits sum.splits prod.splits fault.splits if_splits)

text \<open>
  Claim C6, as amended. For every snapshot, address and token, the request of a forced
  diff is the request of an unforced diff with \<^verbatim>\<open>&force=true\<close> appended to the URL, and
  nothing else changed; the unforced URL is the address, the path and the token. So the
  flag occurs exactly one more time in the forced URL than in the unforced one: once and
  not at all when neither the address nor the token contains the text of the flag.
\<close>

theorem force_appends_flag_once:
  assumes "clients w c = Some cl" and "HTTPClient cl = Some h"
    and "Marshal l snapshot = Inr b"
    and "accepted l (diff_request cl b False)" and "accepted l (diff_request cl b True)"
    and "unforced = \<lparr>Method = ''POST'',
           ReqURL = URL cl @ ''/schema/diff?access_token='' @ AccessToken cl,
           ReqBody = Some b, Header = [''Content-Type'' \<mapsto> [''application/json'']]\<rparr>"
  shows "sent (snd (GetDiff l c snapshot False w)) = sent w @ [unforced]
    \<and> sent (snd (GetDiff l c snapshot True w))
        = sent w @ [unforced\<lparr>ReqURL := ReqURL unforced @ ''&force=true''\<rparr>]
    \<and> occurrences ''&force=true'' (ReqURL unforced @ ''&force=true'')
        = Suc (occurrences ''&force=true'' (ReqURL unforced))
    \<and> (occurrences ''&force=true'' (URL cl) = 0 \<and> occurrences ''&force=true'' (AccessToken cl) = 0
        \<longrightarrow> occurrences ''&force=true'' (ReqURL unforced) = 0
          \<and> occurrences ''&force=true'' (ReqURL unforced @ ''&force=true'') = 1)"
proof -
  have f: "diff_request cl b False = unforced"
    and t: "diff_request cl b True = unforced\<lparr>ReqURL := ReqURL unforced @ ''&force=true''\<rparr>"
    using assms(6) by (simp_all add: diff_request_def)
  have 1: "sent (snd (GetDiff l c snapshot False w)) = sent w @ [unforced]"
    using GetDiff_sends [OF assms(1-3), of False] assms(4) f by (simp add: accepted_def)
  have 2: "sent (snd (GetDiff l c snapshot True w))
      = sent w @ [unforced\<lparr>ReqURL := ReqURL unforced @ ''&force=true''\<rparr>]"
    using GetDiff_sends [OF assms(1-3), of True] assms(5) t by (simp add: accepted_def)
  have 3: "occurrences ''&force=true'' (ReqURL unforced @ ''&force=true'')
      = Suc (occurrences ''&force=true'' (ReqURL unforced))"
    by (rule flag_added_once)
  have 4: "occurrences ''&force=true'' (ReqURL unforced) = 0"
    if "occurrences ''&force=true'' (URL cl) = 0 \<and> occurrences ''&force=true'' (AccessToken cl) = 0"
    using that flag_not_in_diff_url [of "URL cl" "AccessToken cl"] assms(6) by simp
  from 1 2 3 4 show ?thesis by simp
qed

text \<open>The target at \<^verbatim>\<open>http://target\<close> with the token \<^verbatim>\<open>tt\<close>.\<close>

theorem force_appends_flag_once_witness:
  \<open>sent (snd (GetDiff (stub routes_ok) 1 Map.empty False
            (with_client routes_ok ''http://target'' ''tt'')))
      = [\<lparr>Method = ''POST'', ReqURL = ''http://target/schema/diff?access_token=tt'',
           ReqBody = Some ''{}'', Header = [''Content-Type'' \<mapsto> [''application/json'']]\<rparr>]
   \<and> sent (snd (GetDiff (stub routes_ok) 1 Map.empty True
            (with_client routes_ok ''http://target'' ''tt'')))
      = [\<lparr>Method = ''POST'', ReqURL = ''http://target/schema/diff?access_token=tt&force=true'',
           ReqBody = Some ''{}'', Header = [''Content-Type'' \<mapsto> [''application/json'']]\<rparr>]
   \<and> occurrences ''&force=true'' ''http://target/schema/diff?access_token=tt'' = 0
   \<and> occurrences ''&force=true'' ''http://target/schema/diff?access_token=tt&force=true'' = 1\<close>
proof -
  have 1: \<open>clients (with_client routes_ok ''http://target'' ''tt'') 1
      = Some (target_client routes_ok)\<close>
    and 2: \<open>HTTPClient (target_client routes_ok) = Some (stub_client routes_ok)\<close>
    and 3: \<open>Marshal (stub routes_ok) Map.empty = Inr ''{}''\<close>
    and 4: \<open>accepted (stub routes_ok) (diff_request (target_client routes_ok) ''{}'' False)\<close>
    and 5: \<open>accepted (stub routes_ok) (diff_request (target_client routes_ok) ''{}'' True)\<close>
    by (simp_all add: stub_defs request_defs)
  have 6: \<open>\<lparr>Method = ''POST'', ReqURL = ''http://target/schema/diff?access_token=tt'',
           ReqBody = Some ''{}'', Header = [''Content-Type'' \<mapsto> [''application/json'']]\<rparr>
      = \<lparr>Method = ''POST'',
         ReqURL = URL (target_client routes_ok) @ ''/schema/diff?access_token=''
                    @ AccessToken (target_client routes_ok),
         ReqBody = Some ''{}'', Header = [''Content-Type'' \<mapsto> [''application/json'']]\<rparr>\<close>
    by (simp add: stub_defs)
  have 7: \<open>occurrences ''&force=true'' (URL (target_client routes_ok)) = 0
      \<and> occurrences ''&force=true'' (AccessToken (target_client routes_ok)) = 0\<close>
    by (simp add: stub_defs)
  have 8: \<open>sent (with_client routes_ok ''http://target'' ''tt'') = []\<close>
    by (simp add: stub_defs)
  from force_appends_flag_once [OF 1 2 3 4 5 6] 7 8 show ?thesis
    by simp
qed

text \<open>The token \<^verbatim>\<open>t&force=true\<close>: the URL of the unforced request contains the flag, and
  the URL of the forced request contains it twice.\<close>

theorem flag_in_token:
  \<open>map ReqURL (sent (snd (GetDiff (stub routes_flag_token) 1 Map.empty False
            (with_client routes_flag_token ''http://target'' ''t&force=true''))))
      = [''http://target/schema/diff?access_token=t&force=true'']
   \<and> occurrences ''&force=true'' ''http://target/schema/diff?access_token=t&force=true'' = 1
   \<and> map ReqURL (sent (snd (GetDiff (stub routes_flag_token) 1 Map.empty True
            (with_client routes_flag_token ''http://target'' ''t&force=true''))))
      = [''http://target/schema/diff?access_token=t&force=true&force=true'']
   \<and> occurrences ''&force=true''
        ''http://target/schema/diff?access_token=t&force=true&force=true'' = 2\<close>
  by (simp add: stub_defs op_defs routes_flag_token_def)

section \<open>Requests handed to the HTTP client, and the frame\<close>

lemma GetSnapshot_world:
  "snd (GetSnapshot l c w) =
     (case clients w c of
        None \<Rightarrow> w
      | Some cl \<Rightarrow>
          (case HTTPClient cl of
             None \<Rightarrow> w
           | Some h \<Rightarrow>
               if accepted l (snapshot_request cl)
               then after_send w (snapshot_request cl) (snd (h (remote w) (snapshot_request cl)))
               else w))"
  by (auto simp: op_defs request_defs after_send_def
      split: option.splits sum.splits prod.splits fault.splits)

lemma GetDiff_world:
  "snd (GetDiff l c snapshot force w) =
     (case clients w c of
        None \<Rightarrow> w
      | Some cl \<Rightarrow>
          (case HTTPClient cl of
             None \<Rightarrow> w
           | Some h \<Rightarrow>
               (case Marshal l snapshot of
                  Inl e \<Rightarrow> w
                | Inr b \<Rightarrow>
                    if accepted l (diff_request cl b force)
                    then after_send w (diff_request cl b force)
                           (snd (h (remote w) (diff_request cl b force)))
                    else w)))"
  by (cases force)
    (auto simp: op_defs request_defs after_send_def
      split: option.splits sum.splits prod.splits fault.splits)

lemma ApplyDiff_world:
  "snd (ApplyDiff l c diff w) =
     (case clients w c of
        None \<Rightarrow> w
      | Some cl \<Rightarrow>
          (case HTTPClient cl of
             None \<Rightarrow> w
           | Some h \<Rightarrow>
               (case Marshal l diff of
                  Inl e \<Rightarrow> w
                | Inr b \<Rightarrow>
                    if accepted l (apply_request cl b)
                    then after_send w (apply_request cl b)
                           (snd (h (remote w) (apply_request cl b)))
                    else w)))"
  by (auto simp: op_defs request_defs after_send_def
      split: option.splits sum.splits prod.splits fault.splits)

lemma after_send_frame [simp]:
  "clients (after_send w req n) = clients w"
  "next_addr (after_send w req n) = next_addr w"
  "stdout (after_send w req n) = stdout w"
  "sent (after_send w req n) = sent w @ [req]"
  "remote (after_send w req n) = n"
  by (simp_all add: after_send_def)

lemma operations_frame:
  "clients (snd (GetSnapshot l c w)) = clients w"
  "next_addr (snd (GetSnapshot l c w)) = next_addr w"
  "stdout (snd (GetSnapshot l c w)) = stdout w"
  "clients (snd (GetDiff l c snapshot force w)) = clients w"
  "next_addr (snd (GetDiff l c snapshot force w)) = next_addr w"
  "stdout (snd (GetDiff l c snapshot force w)) = stdout w"
  "clients (snd (ApplyDiff l c diff w)) = clients w"
  "next_addr (snd (ApplyDiff l c diff w)) = next_addr w"
  "stdout (snd (ApplyDiff l c diff w)) = stdout w"
  by (simp_all add: GetSnapshot_world GetDiff_world ApplyDiff_world split: option.splits sum.splits)

text \<open>
  Claim C9, as amended. Every invocation of \<open>GetSnapshot\<close>, \<open>GetDiff\<close> and \<open>ApplyDiff\<close>
  hands at most one request to \<^verbatim>\<open>HTTPClient.Do\<close>: exactly one when the request could be
  built (the client and its HTTP client are not nil, the payload was encoded, and
  \<^verbatim>\<open>http.NewRequest\<close> accepted the URL), and none otherwise. What \<^verbatim>\<open>Do\<close> then does on the
  network is the library's. No invocation changes a client object: the fields \<open>URL\<close>,
  \<open>AccessToken\<close> and \<open>HTTPClient\<close> of every client are as before.
\<close>

theorem one_request_handed_when_built:
  "clients (snd (GetSnapshot l c w)) = clients w
   \<and> clients (snd (GetDiff l c snapshot force w)) = clients w
   \<and> clients (snd (ApplyDiff l c diff w)) = clients w
   \<and> (clients w c = Some cl \<and> HTTPClient cl = Some h \<and> accepted l (snapshot_request cl)
      \<longrightarrow> sent (snd (GetSnapshot l c w)) = sent w @ [snapshot_request cl])
   \<and> (clients w c = Some cl \<and> HTTPClient cl = Some h \<and> Marshal l snapshot = Inr b
        \<and> accepted l (diff_request cl b force)
      \<longrightarrow> sent (snd (GetDiff l c snapshot force w)) = sent w @ [diff_request cl b force])
   \<and> (clients w c = Some cl \<and> HTTPClient cl = Some h \<and> Marshal l diff = Inr b'
        \<and> accepted l (apply_request cl b')
      \<longrightarrow> sent (snd (ApplyDiff l c diff w)) = sent w @ [apply_request cl b'])
   \<and> (\<not> (\<exists>cl h. clients w c = Some cl \<and> HTTPClient cl = Some h
            \<and> accepted l (snapshot_request cl))
      \<longrightarrow> sent (snd (GetSnapshot l c w)) = sent w)
   \<and> (\<not> (\<exists>cl h b. clients w c = Some cl \<and> HTTPClient cl = Some h \<and> Marshal l snapshot = Inr b
            \<and> accepted l (diff_request cl b force))
      \<longrightarrow> sent (snd (GetDiff l c snapshot force w)) = sent w)
   \<and> (\<not> (\<exists>cl h b. clients w c = Some cl \<and> HTTPClient cl = Some h \<and> Marshal l diff = Inr b
            \<and> accepted l (apply_request cl b))
      \<longrightarrow> sent (snd (ApplyDiff l c diff w)) = sent w)"
proof (intro conjI impI)
  show "clients (snd (GetSnapshot l c w)) = clients w"
    and "clients (snd (GetDiff l c snapshot force w)) = clients w"
    and "clients (snd (ApplyDiff l c diff w)) = clients w"
    by (rule operations_frame)+
next
  assume "clients w c = Some cl \<and> HTTPClient cl = Some h \<and> accepted l (snapshot_request cl)"
  then show "sent (snd (GetSnapshot l c w)) = sent w @ [snapshot_request cl]"
    by (simp add: GetSnapshot_world)
next
  assume "clients w c = Some cl \<and> HTTPClient cl = Some h \<and> Marshal l snapshot = Inr b
      \<and> accepted l (diff_request cl b force)"
  then show "sent (snd (GetDiff l c snapshot force w)) = sent w @ [diff_request cl b force]"
    by (simp add: GetDiff_world)
next
  assume "clients w c = Some cl \<and> HTTPClient cl = Some h \<and> Marshal l diff = Inr b'
      \<and> accepted l (apply_request cl b')"
  then show "sent (snd (ApplyDiff l c diff w)) = sent w @ [apply_request cl b']"
    by (simp add: ApplyDiff_world)
next
  assume "\<not> (\<exists>cl h. clients w c = Some cl \<and> HTTPClient cl = Some h
      \<and> accepted l (snapshot_request cl))"
  then show "sent (snd (GetSnapshot l c w)) = sent w"
    by (auto simp: GetSnapshot_world split: option.splits)
next
  assume "\<not> (\<exists>cl h b. clients w c = Some cl \<and> HTTPClient cl = Some h
      \<and> Marshal l snapshot = Inr b \<and> accepted l (diff_request cl b force))"
  then show "sent (snd (GetDiff l c snapshot force w)) = sent w"
    by (auto simp: GetDiff_world split: option.splits sum.splits)
next
  assume "\<not> (\<exists>cl h b. clients w c = Some cl \<and> HTTPClient cl = Some h
      \<and> Marshal l diff = Inr b \<and> accepted l (apply_request cl b))"
  then show "sent (snd (ApplyDiff l c diff w)) = sent w"
    by (auto simp: ApplyDiff_world split: option.splits sum.splits)
qed

text \<open>With the tokens \<^verbatim>\<open>bt\<close> and \<^verbatim>\<open>tt\<close> each operation hands its request to
  \<^verbatim>\<open>HTTPClient.Do\<close>; with a token that has a line feed in it, none does.\<close>

theorem one_request_handed_when_built_witness:
  \<open>sent (snd (GetSnapshot (stub routes_ok) 1 (with_client routes_ok ''http://base'' ''bt'')))
      = [snapshot_request (base_client routes_ok)]
   \<and> sent (snd (GetDiff (stub routes_ok) 1 Map.empty True
        (with_client routes_ok ''http://target'' ''tt'')))
      = [diff_request (target_client routes_ok) ''{}'' True]
   \<and> sent (snd (ApplyDiff (stub routes_ok) 1 Map.empty
        (with_client routes_ok ''http://target'' ''tt'')))
      = [apply_request (target_client routes_ok) ''{}'']
   \<and> sent (snd (GetSnapshot (stub routes_ok) 1
        (with_client routes_ok ''http://base'' token_with_newline))) = []
   \<and> sent (snd (GetDiff (stub routes_ok) 1 Map.empty True
        (with_client routes_ok ''http://target'' token_with_newline))) = []
   \<and> sent (snd (ApplyDiff (stub routes_ok) 1 Map.empty
        (with_client routes_ok ''http://target'' token_with_newline))) = []\<close>
proof -
  note t = one_request_handed_when_built
  have e: \<open>sent (with_client routes_ok u k) = []\<close> for u k
    by (simp add: stub_defs)
  have \<open>clients (with_client routes_ok ''http://base'' ''bt'') 1 = Some (base_client routes_ok)
      \<and> HTTPClient (base_client routes_ok) = Some (stub_client routes_ok)
      \<and> accepted (stub routes_ok) (snapshot_request (base_client routes_ok))\<close>
    by (simp add: stub_defs request_defs)
  then have 1: \<open>sent (snd (GetSnapshot (stub routes_ok) 1
        (with_client routes_ok ''http://base'' ''bt''))) = [snapshot_request (base_client routes_ok)]\<close>
    using t [where w = \<open>with_client routes_ok ''http://base'' ''bt''\<close>] e by fastforce
  have \<open>clients (with_client routes_ok ''http://target'' ''tt'') 1 = Some (target_client routes_ok)
      \<and> HTTPClient (target_client routes_ok) = Some (stub_client routes_ok)
      \<and> Marshal (stub routes_ok) Map.empty = Inr ''{}''
      \<and> accepted (stub routes_ok) (diff_request (target_client routes_ok) ''{}'' True)\<close>
    by (simp add: stub_defs request_defs)
  then have 2: \<open>sent (snd (GetDiff (stub routes_ok) 1 Map.empty True
        (with_client routes_ok ''http://target'' ''tt'')))
      = [diff_request (target_client routes_ok) ''{}'' True]\<close>
    using t [where w = \<open>with_client routes_ok ''http://target'' ''tt''\<close>] e by fastforce
  have \<open>clients (with_client routes_ok ''http://target'' ''tt'') 1 = Some (target_client routes_ok)
      \<and> HTTPClient (target_client routes_ok) = Some (stub_client routes_ok)
      \<and> Marshal (stub routes_ok) Map.empty = Inr ''{}''
      \<and> accepted (stub routes_ok) (apply_request (target_client routes_ok) ''{}'')\<close>
    by (simp add: stub_defs request_defs)
  then have 3: \<open>sent (snd (ApplyDiff (stub routes_ok) 1 Map.empty
        (with_client routes_ok ''http://target'' ''tt'')))
      = [apply_request (target_client routes_ok) ''{}'']\<close>
    using t [where w = \<open>with_client routes_ok ''http://target'' ''tt''\<close>] e by fastforce
  have \<open>\<not> (\<exists>cl h. clients (with_client routes_ok ''http://base'' token_with_newline) 1 = Some cl
      \<and> HTTPClient cl = Some h \<and> accepted (stub routes_ok) (snapshot_request cl))\<close>
    by (simp add: stub_defs request_defs token_with_newline_def)
  then have 4: \<open>sent (snd (GetSnapshot (stub routes_ok) 1
        (with_client routes_ok ''http://base'' token_with_newline))) = []\<close>
    using t [where w = \<open>with_client routes_ok ''http://base'' token_with_newline\<close>] e by simp
  have \<open>\<not> (\<exists>cl h b. clients (with_client routes_ok ''http://target'' token_with_newline) 1 = Some cl
      \<and> HTTPClient cl = Some h \<and> Marshal (stub routes_ok) Map.empty = Inr b
      \<and> accepted (stub routes_ok) (diff_request cl b True))\<close>
    by (simp add: stub_defs request_defs token_with_newline_def)
  then have 5: \<open>sent (snd (GetDiff (stub routes_ok) 1 Map.empty True
        (with_client routes_ok ''http://target'' token_with_newline))) = []\<close>
    using t [where w = \<open>with_client routes_ok ''http://target'' token_with_newline\<close>] e by simp
  have \<open>\<not> (\<exists>cl h b. clients (with_client routes_ok ''http://target'' token_with_newline) 1 = Some cl
      \<and> HTTPClient cl = Some h \<and> Marshal (stub routes_ok) Map.empty = Inr b
      \<and> accepted (stub routes_ok) (apply_request cl b))\<close>
    by (simp add: stub_defs request_defs token_with_newline_def)
  then have 6: \<open>sent (snd (ApplyDiff (stub routes_ok) 1 Map.empty
        (with_client routes_ok ''http://target'' token_with_newline))) = []\<close>
    using t [where w = \<open>with_client routes_ok ''http://target'' token_with_newline\<close>] e by simp
  from 1 2 3 4 5 6 show ?thesis by simp
qed

text \<open>The base token has a line feed in it: \<^verbatim>\<open>http.NewRequest\<close> rejects the URL and
  \<open>GetSnapshot\<close> returns that error, wrapped. No request has been handed to
  \<^verbatim>\<open>HTTPClient.Do\<close>, so there has been no round trip on the network.\<close>

theorem no_request_on_rejected_url:
  \<open>fst (GetSnapshot (stub routes_ok) 1 (with_client routes_ok ''http://base'' token_with_newline))
      = Inl (Err (WrapError
          (''failed to create snapshot request: ''
             @ ''parse "http://base/schema/snapshot?access_token=b'' @ [CHR 0x5C] @ ''nt": ''
             @ ''net/url: invalid control character in URL'')
          (WrapError
             (''parse "http://base/schema/snapshot?access_token=b'' @ [CHR 0x5C] @ ''nt": ''
                @ ''net/url: invalid control character in URL'')
             (ErrorString ''net/url: invalid control character in URL''))))
   \<and> sent (with_client routes_ok ''http://base'' token_with_newline) = []
   \<and> sent (snd (GetSnapshot (stub routes_ok) 1
        (with_client routes_ok ''http://base'' token_with_newline))) = []\<close>
  by (simp add: stub_defs op_defs Errorf_w_def url_Error_def invalid_control_character_def)

section \<open>The request URL\<close>

text \<open>
  Claim C10. For every address and every token, each operation hands to
  \<^verbatim>\<open>http.NewRequest\<close> the plain concatenation of the address, the endpoint path,
  \<^verbatim>\<open>?access_token=\<close> and the token (and \<^verbatim>\<open>&force=true\<close> for a forced diff): when the
  parser rejects that string the operation returns the parser's error, wrapped, and when
  it accepts it the request goes out with exactly that string as its URL. The package
  itself neither escapes nor rejects anything: empty strings and metacharacters go
  through unchanged.
\<close>

theorem url_is_plain_concatenation:
  "(clients w c = Some cl
      \<and> ParseURL l (URL cl @ ''/schema/snapshot?access_token='' @ AccessToken cl) = Some e
    \<longrightarrow> GetSnapshot l c w
          = (Inl (Err (Errorf_w ''failed to create snapshot request: '' e)), w))
   \<and> (clients w c = Some cl \<and> HTTPClient cl = Some h
      \<and> ParseURL l (URL cl @ ''/schema/snapshot?access_token='' @ AccessToken cl) = None
    \<longrightarrow> map ReqURL (sent (snd (GetSnapshot l c w)))
          = map ReqURL (sent w) @ [URL cl @ ''/schema/snapshot?access_token='' @ AccessToken cl])
   \<and> (clients w c = Some cl \<and> Marshal l snapshot = Inr b
      \<and> ParseURL l (URL cl @ ''/schema/diff?access_token='' @ AccessToken cl
           @ (if force then ''&force=true'' else [])) = Some e
    \<longrightarrow> GetDiff l c snapshot force w
          = (Inl (Err (Errorf_w ''failed to create diff request: '' e)), w))
   \<and> (clients w c = Some cl \<and> HTTPClient cl = Some h \<and> Marshal l snapshot = Inr b
      \<and> ParseURL l (URL cl @ ''/schema/diff?access_token='' @ AccessToken cl
           @ (if force then ''&force=true'' else [])) = None
    \<longrightarrow> map ReqURL (sent (snd (GetDiff l c snapshot force w)))
          = map ReqURL (sent w) @ [URL cl @ ''/schema/diff?access_token='' @ AccessToken cl
              @ (if force then ''&force=true'' else [])])
   \<and> (clients w c = Some cl \<and> Marshal l diff = Inr b
      \<and> ParseURL l (URL cl @ ''/schema/apply?access_token='' @ AccessToken cl) = Some e
    \<longrightarrow> ApplyDiff l c diff w
          = (Some (Err (Errorf_w ''failed to create apply request: '' e)), w))
   \<and> (clients w c = Some cl \<and> HTTPClient cl = Some h \<and> Marshal l diff = Inr b
      \<and> ParseURL l (URL cl @ ''/schema/apply?access_token='' @ AccessToken cl) = None
    \<longrightarrow> map ReqURL (sent (snd (ApplyDiff l c diff w)))
          = map ReqURL (sent w) @ [URL cl @ ''/schema/apply?access_token='' @ AccessToken cl])"
proof (intro conjI impI)
  assume "clients w c = Some cl
      \<and> ParseURL l (URL cl @ ''/schema/snapshot?access_token='' @ AccessToken cl) = Some e"
  then show "GetSnapshot l c w
      = (Inl (Err (Errorf_w ''failed to create snapshot request: '' e)), w)"
    by (simp add: op_defs)
next
  assume "clients w c = Some cl \<and> HTTPClient cl = Some h
      \<and> ParseURL l (URL cl @ ''/schema/snapshot?access_token='' @ AccessToken cl) = None"
  then show "map ReqURL (sent (snd (GetSnapshot l c w)))
      = map ReqURL (sent w) @ [URL cl @ ''/schema/snapshot?access_token='' @ AccessToken cl]"
    by (simp add: GetSnapshot_world request_defs)
next
  assume "clients w c = Some cl \<and> Marshal l snapshot = Inr b
      \<and> ParseURL l (URL cl @ ''/schema/diff?access_token='' @ AccessToken cl
           @ (if force then ''&force=true'' else [])) = Some e"
  then show "GetDiff l c snapshot force w
      = (Inl (Err (Errorf_w ''failed to create diff request: '' e)), w)"
    by (cases force) (simp_all add: op_defs)
next
  assume "clients w c = Some cl \<and> HTTPClient cl = Some h \<and> Marshal l snapshot = Inr b
      \<and> ParseURL l (URL cl @ ''/schema/diff?access_token='' @ AccessToken cl
           @ (if force then ''&force=true'' else [])) = None"
  then show "map ReqURL (sent (snd (GetDiff l c snapshot force w)))
      = map ReqURL (sent w) @ [URL cl @ ''/schema/diff?access_token='' @ AccessToken cl
          @ (if force then ''&force=true'' else [])]"
    by (cases force) (simp_all add: GetDiff_world request_defs)
next
  assume "clients w c = Some cl \<and> Marshal l diff = Inr b
      \<and> ParseURL l (URL cl @ ''/schema/apply?access_token='' @ AccessToken cl) = Some e"
  then show "ApplyDiff l c diff w
      = (Some (Err (Errorf_w ''failed to create apply request: '' e)), w)"
    by (simp add: op_defs)
next
  assume "clients w c = Some cl \<and> HTTPClient cl = Some h \<and> Marshal l diff = Inr b
      \<and> ParseURL l (URL cl @ ''/schema/apply?access_token='' @ AccessToken cl) = None"
  then show "map ReqURL (sent (snd (ApplyDiff l c diff w)))
      = map ReqURL (sent w) @ [URL cl @ ''/schema/apply?access_token='' @ AccessToken cl]"
    by (simp add: ApplyDiff_world request_defs)
qed

text \<open>An empty address and an empty token; a token with a space, an ampersand and a
  hash sign; an address with a query and a fragment of its own; and the token with a line
  feed, which only the parser of \<^verbatim>\<open>http.NewRequest\<close> turns away, with the error of
  \<^verbatim>\<open>net/url\<close> that names the URL.\<close>

theorem url_is_plain_concatenation_witness:
  \<open>map ReqURL (sent (snd (GetSnapshot (stub routes_ok) 1 (with_client routes_ok [] []))))
      = [''/schema/snapshot?access_token='']
   \<and> map ReqURL (sent (snd (GetDiff (stub routes_ok) 1 Map.empty True
        (with_client routes_ok ''http://target'' ''a b&c=d#e''))))
      = [''http://target/schema/diff?access_token=a b&c=d#e&force=true'']
   \<and> map ReqURL (sent (snd (ApplyDiff (stub routes_ok) 1 Map.empty
        (with_client routes_ok ''http://target/x?y=1#z'' ''tt''))))
      = [''http://target/x?y=1#z/schema/apply?access_token=tt'']
   \<and> fst (GetSnapshot (stub routes_ok) 1 (with_client routes_ok ''http://base'' token_with_newline))
      = Inl (Err (Errorf_w ''failed to create snapshot request: ''
          (invalid_control_character
            (''"http://base/schema/snapshot?access_token=b'' @ [CHR 0x5C] @ ''nt"''))))
   \<and> fst (GetDiff (stub routes_ok) 1 Map.empty False
        (with_client routes_ok ''http://target'' token_with_newline))
      = Inl (Err (Errorf_w ''failed to create diff request: ''
          (invalid_control_character
            (''"http://target/schema/diff?access_token=b'' @ [CHR 0x5C] @ ''nt"''))))
   \<and> fst (ApplyDiff (stub routes_ok) 1 Map.empty
        (with_client routes_ok ''http://target'' token_with_newline))
      = Some (Err (Errorf_w ''failed to create apply request: ''
          (invalid_control_character
            (''"http://target/schema/apply?access_token=b'' @ [CHR 0x5C] @ ''nt"''))))\<close>
proof -
  note t = url_is_plain_concatenation
  have e: \<open>sent (with_client routes_ok u k) = []\<close> for u k
    by (simp add: stub_defs)
  have \<open>clients (with_client routes_ok [] []) 1 = Some (stub_DirectusClient routes_ok [] [])
      \<and> HTTPClient (stub_DirectusClient routes_ok [] []) = Some (stub_client routes_ok)
      \<and> ParseURL (stub routes_ok) (URL (stub_DirectusClient routes_ok [] [])
           @ ''/schema/snapshot?access_token='' @ AccessToken (stub_DirectusClient routes_ok [] []))
         = None\<close>
    by (simp add: stub_defs)
  then have 1: \<open>map ReqURL (sent (snd (GetSnapshot (stub routes_ok) 1
        (with_client routes_ok [] [])))) = [''/schema/snapshot?access_token='']\<close>
    using t [where w = \<open>with_client routes_ok [] []\<close> and c = 1 and l = \<open>stub routes_ok\<close>
        and cl = \<open>stub_DirectusClient routes_ok [] []\<close> and h = \<open>stub_client routes_ok\<close>] e
    by (simp add: stub_DirectusClient_def)
  have \<open>clients (with_client routes_ok ''http://target'' ''a b&c=d#e'') 1
        = Some (stub_DirectusClient routes_ok ''http://target'' ''a b&c=d#e'')
      \<and> HTTPClient (stub_DirectusClient routes_ok ''http://target'' ''a b&c=d#e'')
        = Some (stub_client routes_ok)
      \<and> Marshal (stub routes_ok) Map.empty = Inr ''{}''
      \<and> ParseURL (stub routes_ok) (URL (stub_DirectusClient routes_ok ''http://target'' ''a b&c=d#e'')
           @ ''/schema/diff?access_token=''
           @ AccessToken (stub_DirectusClient routes_ok ''http://target'' ''a b&c=d#e'')
           @ (if True then ''&force=true'' else [])) = None\<close>
    by (simp add: stub_defs)
  then have 2: \<open>map ReqURL (sent (snd (GetDiff (stub routes_ok) 1 Map.empty True
        (with_client routes_ok ''http://target'' ''a b&c=d#e''))))
      = [''http://target/schema/diff?access_token=a b&c=d#e&force=true'']\<close>
    using t [where w = \<open>with_client routes_ok ''http://target'' ''a b&c=d#e''\<close> and c = 1
        and l = \<open>stub routes_ok\<close> and snapshot = Map.empty and force = True and b = \<open>''{}''\<close>
        and cl = \<open>stub_DirectusClient routes_ok ''http://target'' ''a b&c=d#e''\<close>
        and h = \<open>stub_client routes_ok\<close>] e
    by (simp add: stub_DirectusClient_def)
  have \<open>clients (with_client routes_ok ''http://target/x?y=1#z'' ''tt'') 1
        = Some (stub_DirectusClient routes_ok ''http://target/x?y=1#z'' ''tt'')
      \<and> HTTPClient (stub_DirectusClient routes_ok ''http://target/x?y=1#z'' ''tt'')
        = Some (stub_client routes_ok)
      \<and> Marshal (stub routes_ok) Map.empty = Inr ''{}''
      \<and> ParseURL (stub routes_ok) (URL (stub_DirectusClient routes_ok ''http://target/x?y=1#z'' ''tt'')
           @ ''/schema/apply?access_token=''
           @ AccessToken (stub_DirectusClient routes_ok ''http://target/x?y=1#z'' ''tt'')) = None\<close>
    by (simp add: stub_defs)
  then have 3: \<open>map ReqURL (sent (snd (ApplyDiff (stub routes_ok) 1 Map.empty
        (with_client routes_ok ''http://target/x?y=1#z'' ''tt''))))
      = [''http://target/x?y=1#z/schema/apply?access_token=tt'']\<close>
    using t [where w = \<open>with_client routes_ok ''http://target/x?y=1#z'' ''tt''\<close> and c = 1
        and l = \<open>stub routes_ok\<close> and diff = Map.empty and b = \<open>''{}''\<close>
        and cl = \<open>stub_DirectusClient routes_ok ''http://target/x?y=1#z'' ''tt''\<close>
        and h = \<open>stub_client routes_ok\<close>] e
    by (simp add: stub_DirectusClient_def)
  have p1: \<open>clients (with_client routes_ok ''http://base'' token_with_newline) 1
        = Some (stub_DirectusClient routes_ok ''http://base'' token_with_newline)
      \<and> ParseURL (stub routes_ok)
          (URL (stub_DirectusClient routes_ok ''http://base'' token_with_newline)
           @ ''/schema/snapshot?access_token=''
           @ AccessToken (stub_DirectusClient routes_ok ''http://base'' token_with_newline))
         = Some (invalid_control_character
             (''"http://base/schema/snapshot?access_token=b'' @ [CHR 0x5C] @ ''nt"''))\<close>
    by (simp add: stub_defs)
  have 4: \<open>fst (GetSnapshot (stub routes_ok) 1
        (with_client routes_ok ''http://base'' token_with_newline))
      = Inl (Err (Errorf_w ''failed to create snapshot request: ''
          (invalid_control_character
            (''"http://base/schema/snapshot?access_token=b'' @ [CHR 0x5C] @ ''nt"''))))\<close>
    using p1
      t [where w = \<open>with_client routes_ok ''http://base'' token_with_newline\<close> and c = 1
        and l = \<open>stub routes_ok\<close>
        and cl = \<open>stub_DirectusClient routes_ok ''http://base'' token_with_newline\<close>
        and e = \<open>invalid_control_character
            (''"http://base/schema/snapshot?access_token=b'' @ [CHR 0x5C] @ ''nt"'')\<close>]
    by simp
  have p2: \<open>clients (with_client routes_ok ''http://target'' token_with_newline) 1
        = Some (stub_DirectusClient routes_ok ''http://target'' token_with_newline)
      \<and> Marshal (stub routes_ok) Map.empty = Inr ''{}''
      \<and> ParseURL (stub routes_ok)
          (URL (stub_DirectusClient routes_ok ''http://target'' token_with_newline)
           @ ''/schema/diff?access_token=''
           @ AccessToken (stub_DirectusClient routes_ok ''http://target'' token_with_newline)
           @ (if False then ''&force=true'' else []))
         = Some (invalid_control_character
             (''"http://target/schema/diff?access_token=b'' @ [CHR 0x5C] @ ''nt"''))\<close>
    by (simp add: stub_defs)
  have 5: \<open>fst (GetDiff (stub routes_ok) 1 Map.empty False
        (with_client routes_ok ''http://target'' token_with_newline))
      = Inl (Err (Errorf_w ''failed to create diff request: ''
          (invalid_control_character
            (''"http://target/schema/diff?access_token=b'' @ [CHR 0x5C] @ ''nt"''))))\<close>
    using p2
      t [where w = \<open>with_client routes_ok ''http://target'' token_with_newline\<close> and c = 1
        and l = \<open>stub routes_ok\<close> and snapshot = Map.empty and force = False and b = \<open>''{}''\<close>
        and cl = \<open>stub_DirectusClient routes_ok ''http://target'' token_with_newline\<close>
        and e = \<open>invalid_control_character
            (''"http://target/schema/diff?access_token=b'' @ [CHR 0x5C] @ ''nt"'')\<close>]
    by simp
  have p3: \<open>clients (with_client routes_ok ''http://target'' token_with_newline) 1
        = Some (stub_DirectusClient routes_ok ''http://target'' token_with_newline)
      \<and> Marshal (stub routes_ok) Map.empty = Inr ''{}''
      \<and> ParseURL (stub routes_ok)
          (URL (stub_DirectusClient routes_ok ''http://target'' token_with_newline)
           @ ''/schema/apply?access_token=''
           @ AccessToken (stub_DirectusClient routes_ok ''http://target'' token_with_newline))
         = Some (invalid_control_character
             (''"http://target/schema/apply?access_token=b'' @ [CHR 0x5C] @ ''nt"''))\<close>
    by (simp add: stub_defs)
  have 6: \<open>fst (ApplyDiff (stub routes_ok) 1 Map.empty
        (with_client routes_ok ''http://target'' token_with_newline))
      = Some (Err (Errorf_w ''failed to create apply request: ''
          (invalid_control_character
            (''"http://target/schema/apply?access_token=b'' @ [CHR 0x5C] @ ''nt"''))))\<close>
    using p3
      t [where w = \<open>with_client routes_ok ''http://target'' token_with_newline\<close> and c = 1
        and l = \<open>stub routes_ok\<close> and diff = Map.empty and b = \<open>''{}''\<close>
        and cl = \<open>stub_DirectusClient routes_ok ''http://target'' token_with_newline\<close>
        and e = \<open>invalid_control_character
            (''"http://target/schema/apply?access_token=b'' @ [CHR 0x5C] @ ''nt"'')\<close>]
    by simp
  from 1 2 3 4 5 6 show ?thesis by simp
qed

section \<open>The steps of a migration\<close>

lemma snapshot_world_simps [simp]:
  "remote (snapshot_world l bu bt tu tt w0) = remote w0"
  "sent (snapshot_world l bu bt tu tt w0) = sent w0"
  "stdout (snapshot_world l bu bt tu tt w0)
     = stdout w0 @ [''Retrieving snapshot from base project...'']"
  "clients (snapshot_world l bu bt tu tt w0) (next_addr w0) = Some (new_client l bu bt)"
  "clients (snapshot_world l bu bt tu tt w0) (Suc (next_addr w0)) = Some (new_client l tu tt)"
  by (simp_all add: snapshot_world_def NewDirectusClient_def Println_def new_client_def)

lemma diff_world_simps [simp]:
  "remote (diff_world w) = remote w"
  "sent (diff_world w) = sent w"
  "stdout (diff_world w)
     = stdout w @ [''Snapshot retrieved successfully.'', ''Retrieving diff from target project...'']"
  "clients (diff_world w) = clients w"
  by (simp_all add: diff_world_def Println_def)

lemma apply_world_simps [simp]:
  "remote (apply_world w) = remote w"
  "sent (apply_world w) = sent w"
  "stdout (apply_world w)
     = stdout w @ [''Diff retrieved successfully.'', ''Applying diff to target project...'']"
  "clients (apply_world w) = clients w"
  by (simp_all add: apply_world_def Println_def)

lemma Migrate_snapshot_fails:
  assumes "GetSnapshot l (next_addr w0) (snapshot_world l bu bt tu tt w0) = (Inl f, w1)"
  shows "Migrate l bu bt tu tt force w0 = (Some (labelled ''failed to get snapshot: '' f), w1)"
  using assms
  by (cases f)
    (simp_all add: Migrate_def snapshot_world_def NewDirectusClient_def Let_def)

lemma Migrate_diff_fails:
  assumes "GetSnapshot l (next_addr w0) (snapshot_world l bu bt tu tt w0) = (Inr snapshot, w1)"
    and "GetDiff l (Suc (next_addr w0)) snapshot force (diff_world w1) = (Inl f, w2)"
  shows "Migrate l bu bt tu tt force w0 = (Some (labelled ''failed to get diff: '' f), w2)"
  using assms
  by (cases f)
    (simp_all add: Migrate_def snapshot_world_def diff_world_def NewDirectusClient_def Let_def)

lemma Migrate_apply:
  assumes "GetSnapshot l (next_addr w0) (snapshot_world l bu bt tu tt w0) = (Inr snapshot, w1)"
    and "GetDiff l (Suc (next_addr w0)) snapshot force (diff_world w1) = (Inr diff, w2)"
    and "ApplyDiff l (Suc (next_addr w0)) diff (apply_world w2) = (r, w3)"
  shows "Migrate l bu bt tu tt force w0 =
           (case r of
              Some f \<Rightarrow> (Some (labelled ''failed to apply diff: '' f), w3)
            | None \<Rightarrow> (None, Println ''Diff applied successfully. Migration complete.'' w3))"
  using assms
  by (simp add: Migrate_def snapshot_world_def diff_world_def apply_world_def
      NewDirectusClient_def Let_def split: option.splits fault.splits)

lemma GetSnapshot_sent:
  "sent (snd (GetSnapshot l c w)) = sent w
   \<or> (\<exists>cl. clients w c = Some cl \<and> sent (snd (GetSnapshot l c w)) = sent w @ [snapshot_request cl])"
  by (simp add: GetSnapshot_world split: option.splits)

lemma GetDiff_sent:
  "sent (snd (GetDiff l c snapshot force w)) = sent w
   \<or> (\<exists>cl b. clients w c = Some cl \<and> Marshal l snapshot = Inr b
        \<and> sent (snd (GetDiff l c snapshot force w)) = sent w @ [diff_request cl b force])"
  by (simp add: GetDiff_world split: option.splits sum.splits)

lemma ApplyDiff_sent:
  "sent (snd (ApplyDiff l c diff w)) = sent w
   \<or> (\<exists>cl b. clients w c = Some cl \<and> Marshal l diff = Inr b
        \<and> sent (snd (ApplyDiff l c diff w)) = sent w @ [apply_request cl b])"
  by (simp add: ApplyDiff_world split: option.splits sum.splits)

lemma GetSnapshot_returns_sent:
  assumes "GetSnapshot l c w = (Inr x, w1)" and "clients w c = Some cl"
  shows "sent w1 = sent w @ [snapshot_request cl]"
  using assms
  by (auto simp: op_defs snapshot_request_def
      split: option.splits sum.splits prod.splits fault.splits if_splits)

lemma GetDiff_returns_sent:
  assumes "GetDiff l c snapshot force w = (Inr x, w1)" and "clients w c = Some cl"
  shows "\<exists>b. Marshal l snapshot = Inr b \<and> sent w1 = sent w @ [diff_request cl b force]"
  using assms
  by (cases force)
    (auto simp: op_defs diff_request_def
      split: option.splits sum.splits prod.splits fault.splits if_splits)

section \<open>Fail-fast\<close>

text \<open>
  Claim C2. \<open>Migrate\<close> is fail-fast. If \<open>GetSnapshot\<close> fails, the run ends in the world
  in which \<open>GetSnapshot\<close> returned and with a failure: at most the snapshot request has
  been handed to an HTTP client and only the first progress line has been printed, so
  neither \<open>GetDiff\<close> nor \<open>ApplyDiff\<close> was invoked. If \<open>GetSnapshot\<close> succeeds and \<open>GetDiff\<close>
  fails, the run ends in the world in which \<open>GetDiff\<close> returned and with a failure: the
  requests are the snapshot request and at most the diff request, and the line that
  precedes \<open>ApplyDiff\<close> has not been printed, so \<open>ApplyDiff\<close> was not invoked.
\<close>

theorem migrate_fail_fast:
  "(GetSnapshot l (next_addr w0) (snapshot_world l bu bt tu tt w0) = (Inl f, w1)
    \<longrightarrow> fst (Migrate l bu bt tu tt force w0) \<noteq> None
        \<and> snd (Migrate l bu bt tu tt force w0) = w1
        \<and> (sent w1 = sent w0 \<or> sent w1 = sent w0 @ [snapshot_request (new_client l bu bt)])
        \<and> stdout w1 = stdout w0 @ [''Retrieving snapshot from base project...''])
   \<and> (GetSnapshot l (next_addr w0) (snapshot_world l bu bt tu tt w0) = (Inr snapshot, w1)
      \<and> GetDiff l (Suc (next_addr w0)) snapshot force (diff_world w1) = (Inl f, w2)
    \<longrightarrow> fst (Migrate l bu bt tu tt force w0) \<noteq> None
        \<and> snd (Migrate l bu bt tu tt force w0) = w2
        \<and> (sent w2 = sent w0 @ [snapshot_request (new_client l bu bt)]
           \<or> (\<exists>b. sent w2 = sent w0 @ [snapshot_request (new_client l bu bt),
                                        diff_request (new_client l tu tt) b force]))
        \<and> stdout w2 = stdout w0 @ [''Retrieving snapshot from base project...'',
             ''Snapshot retrieved successfully.'', ''Retrieving diff from target project...''])"
proof (intro conjI impI)
  assume a: "GetSnapshot l (next_addr w0) (snapshot_world l bu bt tu tt w0) = (Inl f, w1)"
  then have w1: "w1 = snd (GetSnapshot l (next_addr w0) (snapshot_world l bu bt tu tt w0))"
    by simp
  from a show "fst (Migrate l bu bt tu tt force w0) \<noteq> None"
    and "snd (Migrate l bu bt tu tt force w0) = w1"
    by (simp_all add: Migrate_snapshot_fails)
  show "sent w1 = sent w0 \<or> sent w1 = sent w0 @ [snapshot_request (new_client l bu bt)]"
    using GetSnapshot_sent [of l "next_addr w0" "snapshot_world l bu bt tu tt w0"]
    unfolding w1 by auto
  show "stdout w1 = stdout w0 @ [''Retrieving snapshot from base project...'']"
    unfolding w1 by (simp add: operations_frame)
next
  assume a: "GetSnapshot l (next_addr w0) (snapshot_world l bu bt tu tt w0) = (Inr snapshot, w1)
      \<and> GetDiff l (Suc (next_addr w0)) snapshot force (diff_world w1) = (Inl f, w2)"
  then have w1: "w1 = snd (GetSnapshot l (next_addr w0) (snapshot_world l bu bt tu tt w0))"
    and w2: "w2 = snd (GetDiff l (Suc (next_addr w0)) snapshot force (diff_world w1))"
    by simp_all
  from a show "fst (Migrate l bu bt tu tt force w0) \<noteq> None"
    and "snd (Migrate l bu bt tu tt force w0) = w2"
    by (simp_all add: Migrate_diff_fails)
  have s1: "sent w1 = sent w0 @ [snapshot_request (new_client l bu bt)]"
    using a GetSnapshot_returns_sent [of l "next_addr w0" "snapshot_world l bu bt tu tt w0"]
    by simp
  have c1: "clients w1 (Suc (next_addr w0)) = Some (new_client l tu tt)"
    unfolding w1 by (simp add: operations_frame)
  show "sent w2 = sent w0 @ [snapshot_request (new_client l bu bt)]
      \<or> (\<exists>b. sent w2 = sent w0 @ [snapshot_request (new_client l bu bt),
                                   diff_request (new_client l tu tt) b force])"
    using GetDiff_sent [of l "Suc (next_addr w0)" snapshot force "diff_world w1"] s1 c1
    unfolding w2 by auto
  have "stdout w1 = stdout w0 @ [''Retrieving snapshot from base project...'']"
    unfolding w1 by (simp add: operations_frame)
  then show "stdout w2 = stdout w0 @ [''Retrieving snapshot from base project...'',
      ''Snapshot retrieved successfully.'', ''Retrieving diff from target project...'']"
    unfolding w2 by (simp add: operations_frame)
qed

lemmas world_defs = snapshot_world_def diff_world_def apply_world_def Println_def

text \<open>The base answers the snapshot request with 500; and the base delivers the
  snapshot but the target answers the diff request with 403.\<close>

theorem migrate_fail_fast_witness:
  \<open>fst (Migrate (stub routes_rejected) ''http://base'' ''bt'' ''http://target'' ''tt'' False
          stub_world) \<noteq> None
   \<and> sent (snd (Migrate (stub routes_rejected) ''http://base'' ''bt'' ''http://target'' ''tt'' False
          stub_world))
      = [snapshot_request (base_client routes_rejected)]
   \<and> stdout (snd (Migrate (stub routes_rejected) ''http://base'' ''bt'' ''http://target'' ''tt''
          False stub_world))
      = [''Retrieving snapshot from base project...'']
   \<and> fst (Migrate (stub routes_diff_rejected) ''http://base'' ''bt'' ''http://target'' ''tt'' False
          stub_world) \<noteq> None
   \<and> sent (snd (Migrate (stub routes_diff_rejected) ''http://base'' ''bt'' ''http://target'' ''tt''
          False stub_world))
      = [snapshot_request (base_client routes_diff_rejected),
         diff_request (target_client routes_diff_rejected) ''{"fields":[]}'' False]
   \<and> stdout (snd (Migrate (stub routes_diff_rejected) ''http://base'' ''bt'' ''http://target''
          ''tt'' False stub_world))
      = [''Retrieving snapshot from base project...'', ''Snapshot retrieved successfully.'',
         ''Retrieving diff from target project...'']\<close>
proof -
  let ?ws = \<open>snapshot_world (stub routes_rejected) ''http://base'' ''bt'' ''http://target'' ''tt''
    stub_world\<close>
  let ?w1 = \<open>snd (GetSnapshot (stub routes_rejected) (next_addr stub_world) ?ws)\<close>
  have \<open>fst (GetSnapshot (stub routes_rejected) (next_addr stub_world) ?ws)
      = Inl (Err (ErrorString ''snapshot request failed with status 500: internal error''))\<close>
    by (simp add: op_defs stub_defs world_defs routes_rejected_def fmt_defs)
  then have \<open>GetSnapshot (stub routes_rejected) (next_addr stub_world) ?ws
      = (Inl (Err (ErrorString ''snapshot request failed with status 500: internal error'')), ?w1)\<close>
    by (simp add: prod_eq_iff)
  from migrate_fail_fast [THEN conjunct1, rule_format, OF this]
  have 1: \<open>fst (Migrate (stub routes_rejected) ''http://base'' ''bt'' ''http://target'' ''tt'' False
          stub_world) \<noteq> None
      \<and> snd (Migrate (stub routes_rejected) ''http://base'' ''bt'' ''http://target'' ''tt'' False
          stub_world) = ?w1
      \<and> stdout ?w1 = stdout stub_world @ [''Retrieving snapshot from base project...'']\<close>
    by simp
  have 2: \<open>sent ?w1 = [snapshot_request (base_client routes_rejected)]\<close>
    by (simp add: op_defs stub_defs world_defs routes_rejected_def request_defs)
  let ?vs = \<open>snapshot_world (stub routes_diff_rejected) ''http://base'' ''bt'' ''http://target''
    ''tt'' stub_world\<close>
  let ?v1 = \<open>snd (GetSnapshot (stub routes_diff_rejected) (next_addr stub_world) ?vs)\<close>
  let ?v2 = \<open>snd (GetDiff (stub routes_diff_rejected) (Suc (next_addr stub_world))
    [''fields'' \<mapsto> ASlice []] False (diff_world ?v1))\<close>
  have \<open>fst (GetSnapshot (stub routes_diff_rejected) (next_addr stub_world) ?vs)
      = Inr [''fields'' \<mapsto> ASlice []]\<close>
    by (simp add: op_defs stub_defs world_defs routes_diff_rejected_def)
  then have s: \<open>GetSnapshot (stub routes_diff_rejected) (next_addr stub_world) ?vs
      = (Inr [''fields'' \<mapsto> ASlice []], ?v1)\<close>
    by (simp add: prod_eq_iff)
  have \<open>fst (GetDiff (stub routes_diff_rejected) (Suc (next_addr stub_world))
        [''fields'' \<mapsto> ASlice []] False (diff_world ?v1))
      = Inl (Err (ErrorString ''diff request failed with status 403: forbidden''))\<close>
    by (simp add: op_defs stub_defs world_defs routes_diff_rejected_def fmt_defs)
  then have d: \<open>GetDiff (stub routes_diff_rejected) (Suc (next_addr stub_world))
        [''fields'' \<mapsto> ASlice []] False (diff_world ?v1)
      = (Inl (Err (ErrorString ''diff request failed with status 403: forbidden'')), ?v2)\<close>
    by (simp add: prod_eq_iff)
  from migrate_fail_fast [THEN conjunct2, rule_format, OF conjI, OF s d]
  have 3: \<open>fst (Migrate (stub routes_diff_rejected) ''http://base'' ''bt'' ''http://target'' ''tt''
          False stub_world) \<noteq> None
      \<and> snd (Migrate (stub routes_diff_rejected) ''http://base'' ''bt'' ''http://target'' ''tt''
          False stub_world) = ?v2
      \<and> stdout ?v2 = stdout stub_world @ [''Retrieving snapshot from base project...'',
          ''Snapshot retrieved successfully.'', ''Retrieving diff from target project...'']\<close>
    by simp
  have 4: \<open>sent ?v2 = [snapshot_request (base_client routes_diff_rejected),
      diff_request (target_client routes_diff_rejected) ''{"fields":[]}'' False]\<close>
    by (simp add: op_defs stub_defs world_defs routes_diff_rejected_def request_defs)
  from 1 2 3 4 show ?thesis
    by (simp add: stub_world_def)
qed

section \<open>The error that \<open>Migrate\<close> returns\<close>



section \<open>Forwarding of the payloads\<close>

lemma Migrate_sent_after_diff:
  assumes s: "GetSnapshot l (next_addr w0) (snapshot_world l bu bt tu tt w0) = (Inr snapshot, w1)"
    and d: "snd (GetDiff l (Suc (next_addr w0)) snapshot force (diff_world w1)) = w2"
  shows "\<exists>rest. sent (snd (Migrate l bu bt tu tt force w0)) = sent w2 @ rest"
proof (cases "fst (GetDiff l (Suc (next_addr w0)) snapshot force (diff_world w1))")
  case (Inl f)
  with d have "GetDiff l (Suc (next_addr w0)) snapshot force (diff_world w1) = (Inl f, w2)"
    by (simp add: prod_eq_iff)
  with s show ?thesis
    by (simp add: Migrate_diff_fails)
next
  case (Inr diff)
  with d have d': "GetDiff l (Suc (next_addr w0)) snapshot force (diff_world w1) = (Inr diff, w2)"
    by (simp add: prod_eq_iff)
  obtain r3 w3 where a: "ApplyDiff l (Suc (next_addr w0)) diff (apply_world w2) = (r3, w3)"
    by (cases "ApplyDiff l (Suc (next_addr w0)) diff (apply_world w2)")
  then have w3: "w3 = snd (ApplyDiff l (Suc (next_addr w0)) diff (apply_world w2))"
    by simp
  have "\<exists>rest. sent w3 = sent w2 @ rest"
    using ApplyDiff_sent [of l "Suc (next_addr w0)" diff "apply_world w2"]
    unfolding w3 by auto
  then show ?thesis
    by (cases r3) (simp_all add: Migrate_apply [OF s d' a] Println_def)
qed

text \<open>
  Claim C8. \<open>Migrate\<close> forwards the payloads as they are. When the base answers the
  snapshot request with status 200 and an envelope whose \<open>data\<close> member is the object
  \<open>snapshot\<close>, the next request is the diff request to the target, and its body is the
  encoding that \<^verbatim>\<open>json.Marshal\<close> gives for \<open>snapshot\<close>. When the target answers that
  request with status 200 and an envelope whose \<open>data\<close> member is the object \<open>diff\<close>, the
  third and last request is the apply request to the target, and its body is the encoding
  of \<open>diff\<close>.
\<close>

theorem migrate_forwards_payloads:
  "(accepted l (snapshot_request (new_client l bu bt))
      \<and> DefaultClient l (remote w0) (snapshot_request (new_client l bu bt)) = (Inr resp1, n1)
      \<and> StatusCode resp1 = 200 \<and> Decode l (Body resp1) = Inr res1
      \<and> res1 ''data'' = Some (AMap snapshot)
      \<and> Marshal l snapshot = Inr b1 \<and> accepted l (diff_request (new_client l tu tt) b1 force)
    \<longrightarrow> ReqBody (diff_request (new_client l tu tt) b1 force) = Some b1
        \<and> (\<exists>rest. sent (snd (Migrate l bu bt tu tt force w0))
              = sent w0 @ snapshot_request (new_client l bu bt)
                  # diff_request (new_client l tu tt) b1 force # rest))
   \<and> (accepted l (snapshot_request (new_client l bu bt))
      \<and> DefaultClient l (remote w0) (snapshot_request (new_client l bu bt)) = (Inr resp1, n1)
      \<and> StatusCode resp1 = 200 \<and> Decode l (Body resp1) = Inr res1
      \<and> res1 ''data'' = Some (AMap snapshot)
      \<and> Marshal l snapshot = Inr b1 \<and> accepted l (diff_request (new_client l tu tt) b1 force)
      \<and> DefaultClient l n1 (diff_request (new_client l tu tt) b1 force) = (Inr resp2, n2)
      \<and> StatusCode resp2 = 200 \<and> Decode l (Body resp2) = Inr res2
      \<and> res2 ''data'' = Some (AMap diff)
      \<and> Marshal l diff = Inr b2 \<and> accepted l (apply_request (new_client l tu tt) b2)
    \<longrightarrow> ReqBody (apply_request (new_client l tu tt) b2) = Some b2
        \<and> sent (snd (Migrate l bu bt tu tt force w0))
            = sent w0 @ [snapshot_request (new_client l bu bt),
                         diff_request (new_client l tu tt) b1 force,
                         apply_request (new_client l tu tt) b2])"
proof (intro conjI impI)
  let ?ws = "snapshot_world l bu bt tu tt w0"
  let ?base = "new_client l bu bt"
  let ?target = "new_client l tu tt"
  assume a: "accepted l (snapshot_request ?base)
      \<and> DefaultClient l (remote w0) (snapshot_request ?base) = (Inr resp1, n1)
      \<and> StatusCode resp1 = 200 \<and> Decode l (Body resp1) = Inr res1
      \<and> res1 ''data'' = Some (AMap snapshot)
      \<and> Marshal l snapshot = Inr b1 \<and> accepted l (diff_request ?target b1 force)"
  show "ReqBody (diff_request ?target b1 force) = Some b1"
    by (simp add: diff_request_def)
  let ?w1 = "after_send ?ws (snapshot_request ?base) n1"
  have s: "GetSnapshot l (next_addr w0) ?ws = (Inr snapshot, ?w1)"
    using a GetSnapshot_data [of ?ws "next_addr w0" ?base "DefaultClient l" l resp1 n1 res1]
    by (simp add: accepted_def new_client_def)
  have "sent (snd (GetDiff l (Suc (next_addr w0)) snapshot force (diff_world ?w1)))
      = sent w0 @ [snapshot_request ?base, diff_request ?target b1 force]"
    using a by (simp add: GetDiff_world new_client_def)
  with Migrate_sent_after_diff [OF s refl, of force]
  show "\<exists>rest. sent (snd (Migrate l bu bt tu tt force w0))
      = sent w0 @ snapshot_request ?base # diff_request ?target b1 force # rest"
    by auto
next
  let ?ws = "snapshot_world l bu bt tu tt w0"
  let ?base = "new_client l bu bt"
  let ?target = "new_client l tu tt"
  assume a: "accepted l (snapshot_request ?base)
      \<and> DefaultClient l (remote w0) (snapshot_request ?base) = (Inr resp1, n1)
      \<and> StatusCode resp1 = 200 \<and> Decode l (Body resp1) = Inr res1
      \<and> res1 ''data'' = Some (AMap snapshot)
      \<and> Marshal l snapshot = Inr b1 \<and> accepted l (diff_request ?target b1 force)
      \<and> DefaultClient l n1 (diff_request ?target b1 force) = (Inr resp2, n2)
      \<and> StatusCode resp2 = 200 \<and> Decode l (Body resp2) = Inr res2
      \<and> res2 ''data'' = Some (AMap diff)
      \<and> Marshal l diff = Inr b2 \<and> accepted l (apply_request ?target b2)"
  show "ReqBody (apply_request ?target b2) = Some b2"
    by (simp add: apply_request_def)
  let ?w1 = "after_send ?ws (snapshot_request ?base) n1"
  let ?w2 = "after_send (diff_world ?w1) (diff_request ?target b1 force) n2"
  have s: "GetSnapshot l (next_addr w0) ?ws = (Inr snapshot, ?w1)"
    using a GetSnapshot_data [of ?ws "next_addr w0" ?base "DefaultClient l" l resp1 n1 res1]
    by (simp add: accepted_def new_client_def)
  have d: "GetDiff l (Suc (next_addr w0)) snapshot force (diff_world ?w1) = (Inr diff, ?w2)"
    using a GetDiff_data [of "diff_world ?w1" "Suc (next_addr w0)" ?target "DefaultClient l" l
        snapshot b1 force resp2 n2 res2]
    by (simp add: accepted_def new_client_def)
  obtain r3 w3 where ap: "ApplyDiff l (Suc (next_addr w0)) diff (apply_world ?w2) = (r3, w3)"
    by (cases "ApplyDiff l (Suc (next_addr w0)) diff (apply_world ?w2)")
  then have w3: "w3 = snd (ApplyDiff l (Suc (next_addr w0)) diff (apply_world ?w2))"
    by simp
  have "sent w3 = sent w0 @ [snapshot_request ?base, diff_request ?target b1 force,
      apply_request ?target b2]"
    unfolding w3 using a by (simp add: ApplyDiff_world new_client_def)
  then show "sent (snd (Migrate l bu bt tu tt force w0))
      = sent w0 @ [snapshot_request ?base, diff_request ?target b1 force,
                   apply_request ?target b2]"
    by (cases r3) (simp_all add: Migrate_apply [OF s d ap] Println_def)
qed

text \<open>The end-to-end run in which every step succeeds: the snapshot
  \<^verbatim>\<open>{"fields":[]}\<close> goes to the diff endpoint and the diff \<^verbatim>\<open>{"changes":[]}\<close> to the
  apply endpoint.\<close>

theorem migrate_forwards_payloads_witness:
  \<open>(\<exists>rest. sent (snd (Migrate (stub routes_ok) ''http://base'' ''bt'' ''http://target'' ''tt'' True
          stub_world))
      = snapshot_request (base_client routes_ok)
          # diff_request (target_client routes_ok) ''{"fields":[]}'' True # rest)
   \<and> sent (snd (Migrate (stub routes_ok) ''http://base'' ''bt'' ''http://target'' ''tt'' True
          stub_world))
      = [snapshot_request (base_client routes_ok),
         diff_request (target_client routes_ok) ''{"fields":[]}'' True,
         apply_request (target_client routes_ok) ''{"changes":[]}'']
   \<and> ReqBody (diff_request (target_client routes_ok) ''{"fields":[]}'' True)
      = Some ''{"fields":[]}''
   \<and> ReqBody (apply_request (target_client routes_ok) ''{"changes":[]}'')
      = Some ''{"changes":[]}''\<close>
proof -
  have c: \<open>new_client (stub routes_ok) ''http://base'' ''bt'' = base_client routes_ok\<close>
    \<open>new_client (stub routes_ok) ''http://target'' ''tt'' = target_client routes_ok\<close>
    by (simp_all add: new_client_def stub_defs)
  have 1: \<open>accepted (stub routes_ok) (snapshot_request (base_client routes_ok))
      \<and> DefaultClient (stub routes_ok) (remote stub_world) (snapshot_request (base_client routes_ok))
          = (Inr \<lparr>StatusCode = 200, Body = (''{"data":{"fields":[]}}'', None)\<rparr>, ())
      \<and> StatusCode \<lparr>StatusCode = 200, Body = (''{"data":{"fields":[]}}'', None)\<rparr> = 200
      \<and> Decode (stub routes_ok)
          (Body \<lparr>StatusCode = 200, Body = (''{"data":{"fields":[]}}'', None)\<rparr>)
          = Inr [''data'' \<mapsto> AMap [''fields'' \<mapsto> ASlice []]]
      \<and> [''data'' \<mapsto> AMap [''fields'' \<mapsto> ASlice []]] ''data''
          = Some (AMap [''fields'' \<mapsto> ASlice []])
      \<and> Marshal (stub routes_ok) [''fields'' \<mapsto> ASlice []] = Inr ''{"fields":[]}''
      \<and> accepted (stub routes_ok) (diff_request (target_client routes_ok) ''{"fields":[]}'' True)\<close>
    by (simp add: stub_defs request_defs routes_ok_def)
  have 2: \<open>DefaultClient (stub routes_ok) ()
          (diff_request (target_client routes_ok) ''{"fields":[]}'' True)
          = (Inr \<lparr>StatusCode = 200, Body = (''{"data":{"changes":[]}}'', None)\<rparr>, ())
      \<and> StatusCode \<lparr>StatusCode = 200, Body = (''{"data":{"changes":[]}}'', None)\<rparr> = 200
      \<and> Decode (stub routes_ok)
          (Body \<lparr>StatusCode = 200, Body = (''{"data":{"changes":[]}}'', None)\<rparr>)
          = Inr [''data'' \<mapsto> AMap [''changes'' \<mapsto> ASlice []]]
      \<and> [''data'' \<mapsto> AMap [''changes'' \<mapsto> ASlice []]] ''data''
          = Some (AMap [''changes'' \<mapsto> ASlice []])
      \<and> Marshal (stub routes_ok) [''changes'' \<mapsto> ASlice []] = Inr ''{"changes":[]}''
      \<and> accepted (stub routes_ok) (apply_request (target_client routes_ok) ''{"changes":[]}'')\<close>
    by (simp add: stub_defs request_defs routes_ok_def)
  have e: \<open>sent stub_world = []\<close>
    by (simp add: stub_world_def)
  note t = migrate_forwards_payloads [where l = \<open>stub routes_ok\<close> and bu = \<open>''http://base''\<close>
      and bt = \<open>''bt''\<close> and tu = \<open>''http://target''\<close> and tt = \<open>''tt''\<close> and force = True
      and ?w0.0 = stub_world, unfolded c e]
  from t [THEN conjunct1, rule_format, OF 1]
  have 3: \<open>\<exists>rest. sent (snd (Migrate (stub routes_ok) ''http://base'' ''bt'' ''http://target'' ''tt''
          True stub_world))
      = snapshot_request (base_client routes_ok)
          # diff_request (target_client routes_ok) ''{"fields":[]}'' True # rest\<close>
    and 4: \<open>ReqBody (diff_request (target_client routes_ok) ''{"fields":[]}'' True)
      = Some ''{"fields":[]}''\<close>
    by simp_all
  from 1 2 have \<open>accepted (stub routes_ok) (snapshot_request (base_client routes_ok))
      \<and> DefaultClient (stub routes_ok) (remote stub_world) (snapshot_request (base_client routes_ok))
          = (Inr \<lparr>StatusCode = 200, Body = (''{"data":{"fields":[]}}'', None)\<rparr>, ())
      \<and> StatusCode \<lparr>StatusCode = 200, Body = (''{"data":{"fields":[]}}'', None)\<rparr> = 200
      \<and> Decode (stub routes_ok)
          (Body \<lparr>StatusCode = 200, Body = (''{"data":{"fields":[]}}'', None)\<rparr>)
          = Inr [''data'' \<mapsto> AMap [''fields'' \<mapsto> ASlice []]]
      \<and> [''data'' \<mapsto> AMap [''fields'' \<mapsto> ASlice []]] ''data''
          = Some (AMap [''fields'' \<mapsto> ASlice []])
      \<and> Marshal (stub routes_ok) [''fields'' \<mapsto> ASlice []] = Inr ''{"fields":[]}''
      \<and> accepted (stub routes_ok) (diff_request (target_client routes_ok) ''{"fields":[]}'' True)
      \<and> DefaultClient (stub routes_ok) ()
          (diff_request (target_client routes_ok) ''{"fields":[]}'' True)
          = (Inr \<lparr>StatusCode = 200, Body = (''{"data":{"changes":[]}}'', None)\<rparr>, ())
      \<and> StatusCode \<lparr>StatusCode = 200, Body = (''{"data":{"changes":[]}}'', None)\<rparr> = 200
      \<and> Decode (stub routes_ok)
          (Body \<lparr>StatusCode = 200, Body = (''{"data":{"changes":[]}}'', None)\<rparr>)
          = Inr [''data'' \<mapsto> AMap [''changes'' \<mapsto> ASlice []]]
      \<and> [''data'' \<mapsto> AMap [''changes'' \<mapsto> ASlice []]] ''data''
          = Some (AMap [''changes'' \<mapsto> ASlice []])
      \<and> Marshal (stub routes_ok) [''changes'' \<mapsto> ASlice []] = Inr ''{"changes":[]}''
      \<and> accepted (stub routes_ok) (apply_request (target_client routes_ok) ''{"changes":[]}'')\<close>
    by blast
  from t [THEN conjunct2, rule_format, OF this]
  have 5: \<open>sent (snd (Migrate (stub routes_ok) ''http://base'' ''bt'' ''http://target'' ''tt'' True
          stub_world))
      = [snapshot_request (base_client routes_ok),
         diff_request (target_client routes_ok) ''{"fields":[]}'' True,
         apply_request (target_client routes_ok) ''{"changes":[]}'']\<close>
    and 6: \<open>ReqBody (apply_request (target_client routes_ok) ''{"changes":[]}'')
      = Some ''{"changes":[]}''\<close>
    by simp_all
  from 3 4 5 6 show ?thesis by blast
qed

end
